theory Spec2Isabelle
  imports Main "HOL-Library.Sublist"
begin

section \<open>JavaScript values\<close>

text \<open>
  The values that reach the patient portal are the ones a JSON response or the
  authentication context can carry. A number is modelled by an integer of magnitude
  below \<open>2^53\<close>, which \<open>String\<close> prints digit by digit (the identifiers and counters of
  this program are integral; fractions, NaN and larger magnitudes are left out). An
  object is the list of its own properties as \<open>JSON.parse\<close> builds it, each name once;
  a property that is absent reads as \<open>Undefined\<close>. A string is a list of 8-bit code
  units.
\<close>

datatype jsval =
    Undefined
  | Null
  | Bool bool
  | Num int
  | Str string
  | Arr "jsval list"
  | Obj "(string \<times> jsval) list"

type_synonym jsobj = "(string \<times> jsval) list"

text \<open>
  What a \<open>throw\<close> or a rejected promise carries: an error of a service with its message,
  one of the errors the runtime and the date library raise, or the error of React for an
  object given as a child ("Objects are not valid as a React child").
\<close>

datatype js_error = Error string | TypeError | RangeError | ReactChildError

text \<open>\<open>v == null\<close>: the test behind \<open>??\<close> and \<open>?.\<close>.\<close>

fun nullish :: "jsval \<Rightarrow> bool" where
  "nullish Undefined = True"
| "nullish Null = True"
| "nullish _ = False"

text \<open>\<open>a ?? b\<close>\<close>

definition coalesce :: "jsval \<Rightarrow> jsval \<Rightarrow> jsval" where
  "coalesce a b = (if nullish a then b else a)"

text \<open>ToBoolean, as used by \<open>!x\<close>, \<open>x ? a : b\<close> and \<open>if (x)\<close>.\<close>

fun truthy :: "jsval \<Rightarrow> bool" where
  "truthy Undefined = False"
| "truthy Null = False"
| "truthy (Bool b) = b"
| "truthy (Num n) = (n \<noteq> 0)"
| "truthy (Str s) = (s \<noteq> [])"
| "truthy (Arr _) = True"
| "truthy (Obj _) = True"

text \<open>\<open>o.k\<close> on an object given by its property list.\<close>

definition field :: "jsobj \<Rightarrow> string \<Rightarrow> jsval" where
  "field ps k = (case map_of ps k of Some v \<Rightarrow> v | None \<Rightarrow> Undefined)"

text \<open>
  \<open>v.k\<close> for a value \<open>v\<close> that is not nullish, for the property names this program
  reads (identifiers, owner references, dates, statuses and the texts the dashboard shows;
  never \<open>length\<close> or a method): a primitive or an array has no such property. Reading a property of \<open>null\<close> or \<open>undefined\<close> throws
  a TypeError; the functions below test for it before they use \<open>get_prop\<close>.
\<close>

fun get_prop :: "jsval \<Rightarrow> string \<Rightarrow> jsval" where
  "get_prop (Obj ps) k = field ps k"
| "get_prop _ k = Undefined"

text \<open>\<open>v?.k\<close>\<close>

definition opt_prop :: "jsval \<Rightarrow> string \<Rightarrow> jsval" where
  "opt_prop v k = (if nullish v then Undefined else get_prop v k)"

subsection \<open>Results that may be an exception\<close>

text \<open>
  The results of a list of computations in order, or the first exception among them:
  what \<open>Array.prototype.map\<close> and \<open>join\<close> give when a callback may throw.
\<close>

fun sequence_result :: "('e + 'a) list \<Rightarrow> 'e + 'a list" where
  "sequence_result [] = Inr []"
| "sequence_result (r # rs) =
     (case r of
        Inl err \<Rightarrow> Inl err
      | Inr x \<Rightarrow> (case sequence_result rs of Inl err \<Rightarrow> Inl err | Inr xs \<Rightarrow> Inr (x # xs)))"

subsection \<open>String coercion\<close>

definition digit_char :: "nat \<Rightarrow> char" where
  "digit_char d = ''0123456789'' ! d"

fun dec_nat :: "nat \<Rightarrow> string" where
  "dec_nat n = (if n < 10 then [digit_char n] else dec_nat (n div 10) @ [digit_char (n mod 10)])"

declare dec_nat.simps [simp del]

definition dec_int :: "int \<Rightarrow> string" where
  "dec_int i = (if i < 0 then CHR ''-'' # dec_nat (nat (- i)) else dec_nat (nat i))"

fun join_comma :: "string list \<Rightarrow> string" where
  "join_comma [] = []"
| "join_comma [s] = s"
| "join_comma (s # t # ss) = s @ '','' @ join_comma (t # ss)"

text \<open>Whether an object has an own property of the given name.\<close>

definition has_own :: "jsobj \<Rightarrow> string \<Rightarrow> bool" where
  "has_own ps k = (map_of ps k \<noteq> None)"

text \<open>
  \<open>String(v)\<close>, and likewise \<open>'' + v\<close>. An object is converted through its
  \<open>toString\<close>: the inherited one gives \<open>[object Object]\<close>; an own property \<open>toString\<close>
  hides it, and as no JSON value is callable (and the inherited \<open>valueOf\<close> returns the
  object itself) the conversion then throws a TypeError. An array joins the
  conversions of its elements with commas, a nullish element being empty.
\<close>

fun String_js :: "jsval \<Rightarrow> js_error + string" where
  "String_js Undefined = Inr ''undefined''"
| "String_js Null = Inr ''null''"
| "String_js (Bool b) = Inr (if b then ''true'' else ''false'')"
| "String_js (Num n) = Inr (dec_int n)"
| "String_js (Str s) = Inr s"
| "String_js (Arr vs) =
     (case sequence_result (map (\<lambda>v. if nullish v then Inr [] else String_js v) vs) of
        Inl err \<Rightarrow> Inl err
      | Inr ss \<Rightarrow> Inr (join_comma ss))"
| "String_js (Obj ps) =
     (if has_own ps ''toString'' then Inl TypeError else Inr ''[object Object]'')"

section \<open>Dates\<close>

definition ms_per_day :: int where
  "ms_per_day = 86400000"

definition is_digit :: "char \<Rightarrow> bool" where
  "is_digit c = (48 \<le> (of_char c :: nat) \<and> (of_char c :: nat) \<le> 57)"

definition digits_value :: "string \<Rightarrow> int" where
  "digits_value ds = foldl (\<lambda>acc c. acc * 10 + (int (of_char c) - 48)) 0 ds"

definition leap_year :: "int \<Rightarrow> bool" where
  "leap_year y = (y mod 4 = 0 \<and> (y mod 100 \<noteq> 0 \<or> y mod 400 = 0))"

definition days_in_month :: "int \<Rightarrow> int \<Rightarrow> int" where
  "days_in_month y m =
     (if m = 2 then (if leap_year y then 29 else 28)
      else if m = 4 \<or> m = 6 \<or> m = 9 \<or> m = 11 then 30 else 31)"

text \<open>The number of days from 1 January 1970 to a date of the Gregorian calendar.\<close>

definition days_from_civil :: "int \<Rightarrow> int \<Rightarrow> int \<Rightarrow> int" where
  "days_from_civil y m d =
     (let y' = (if m \<le> 2 then y - 1 else y);
          era = y' div 400;
          yoe = y' - era * 400;
          doy = (153 * (if m > 2 then m - 3 else m + 9) + 2) div 5 + d - 1;
          doe = yoe * 365 + yoe div 4 - yoe div 100 + doy
      in era * 146097 + doe - 719468)"

text \<open>
  The day a date-only string \<open>YYYY-MM-DD\<close> names, when it names a day of the calendar.
\<close>

definition iso_date_days :: "string \<Rightarrow> int option" where
  "iso_date_days s =
     (if length s = 10 \<and> s ! 4 = CHR ''-'' \<and> s ! 7 = CHR ''-'' \<and>
         list_all is_digit (take 4 s) \<and> list_all is_digit (take 2 (drop 5 s)) \<and>
         list_all is_digit (drop 8 s)
      then
        (let y = digits_value (take 4 s);
             m = digits_value (take 2 (drop 5 s));
             d = digits_value (drop 8 s)
         in if 1 \<le> m \<and> m \<le> 12 \<and> 1 \<le> d \<and> d \<le> days_in_month y m
            then Some (days_from_civil y m d) else None)
      else None)"

text \<open>
  What the program reads from its runtime: the instant of \<open>new Date()\<close> in
  milliseconds since the epoch, the offset of local time from UTC in milliseconds (local
  time is UTC plus a fixed offset), and the parser of the runtime for the date strings
  that are not of the form above, where \<open>None\<close> is an Invalid Date.
\<close>

record env =
  now :: int
  tz :: int
  Date_parse :: "string \<Rightarrow> int option"

text \<open>
  \<open>new Date(s)\<close> for a string: a date-only string \<open>YYYY-MM-DD\<close> is the midnight of
  that day in UTC, in every runtime; the other strings are left to the parser of the
  runtime.
\<close>

definition Date_of_string :: "env \<Rightarrow> string \<Rightarrow> int option" where
  "Date_of_string e s =
     (case iso_date_days s of
        Some d \<Rightarrow> Some (d * ms_per_day)
      | None \<Rightarrow> Date_parse e s)"

text \<open>
  \<open>new Date(v)\<close>: the instant, \<open>None\<close> for an Invalid Date, or the exception of the
  conversion. \<open>undefined\<close> is invalid, \<open>null\<close> and booleans are numbers, a number is
  the instant itself when it is in the range of dates, an object or array is converted
  to a string first.
\<close>

definition new_Date :: "env \<Rightarrow> jsval \<Rightarrow> js_error + int option" where
  "new_Date e v =
     (case v of
        Undefined \<Rightarrow> Inr None
      | Null \<Rightarrow> Inr (Some 0)
      | Bool b \<Rightarrow> Inr (Some (if b then 1 else 0))
      | Num n \<Rightarrow> Inr (if \<bar>n\<bar> \<le> 8640000000000000 then Some n else None)
      | Str s \<Rightarrow> Inr (Date_of_string e s)
      | _ \<Rightarrow> (case String_js v of Inl err \<Rightarrow> Inl err | Inr s \<Rightarrow> Inr (Date_of_string e s)))"

text \<open>\<open>d.setHours(0, 0, 0, 0)\<close>: the local midnight at or before the instant.\<close>

definition setHours0 :: "int \<Rightarrow> int \<Rightarrow> int" where
  "setHours0 z t = t - (t + z) mod ms_per_day"

text \<open>\<open>d >= t\<close> for a date that may be invalid: a comparison with NaN is false.\<close>

definition date_ge :: "int option \<Rightarrow> int \<Rightarrow> bool" where
  "date_ge d t = (case d of None \<Rightarrow> False | Some u \<Rightarrow> t \<le> u)"

section \<open>Patient dashboard: identity resolution\<close>

text \<open>
  \<^verbatim>\<open>export function getCurrentPatientId(user) {
    return user ? String(user._id ?? user.id ?? '') : '';
  }\<close>
\<close>

definition getCurrentPatientId :: "jsval \<Rightarrow> js_error + string" where
  "getCurrentPatientId user =
     (if truthy user
      then String_js (coalesce (get_prop user ''_id'') (coalesce (get_prop user ''id'') (Str '''')))
      else Inr '''')"

text \<open>
  \<^verbatim>\<open>export function getPatientIdFromAppointment(appointment) {
    const id =
      appointment.patient?._id ?? appointment.patient ?? appointment.patientId ??
      appointment.user?._id ?? appointment.user ?? appointment.userId ?? '';
    return String(id);
  }\<close>
  An appointment is an element of the \<open>appointments\<close> array of the service response,
  whatever its shape. The first property read throws when the element is \<open>null\<close> or
  \<open>undefined\<close>; no other read can throw, and \<open>String\<close> is applied last.
\<close>

definition getPatientIdFromAppointment :: "jsval \<Rightarrow> js_error + string" where
  "getPatientIdFromAppointment appointment =
     (if nullish appointment then Inl TypeError
      else
        (let id =
           coalesce (opt_prop (get_prop appointment ''patient'') ''_id'')
          (coalesce (get_prop appointment ''patient'')
          (coalesce (get_prop appointment ''patientId'')
          (coalesce (opt_prop (get_prop appointment ''user'') ''_id'')
          (coalesce (get_prop appointment ''user'')
          (coalesce (get_prop appointment ''userId'')
                    (Str ''''))))))
         in String_js id))"

section \<open>Patient dashboard: filtering and counting\<close>

record filter_result =
  patientAppointments :: "jsval list"
  upcomingCount :: nat

text \<open>
  The body of the loop of \<open>filterAppointmentsForPatientAndCountUpcoming\<close> for one
  element, on the list and the counter built so far:
  \<^verbatim>\<open>const appointment = appointments[i];
  if (getPatientIdFromAppointment(appointment) !== patientId) continue;
  patientAppointments.push(appointment);
  if (new Date(appointment.appointmentDate) >= todayStart &&
      (appointment.status === 'confirmed' || appointment.status === 'pending')) {
    upcomingCount++;
  }\<close>
  An exception of the owner resolution or of the \<open>Date\<close> constructor leaves the loop
  and the function.
\<close>

definition loop_body ::
  "env \<Rightarrow> string \<Rightarrow> int \<Rightarrow> jsval \<Rightarrow> jsval list \<times> nat \<Rightarrow> js_error + jsval list \<times> nat" where
  "loop_body e patientId todayStart appointment st =
     (case getPatientIdFromAppointment appointment of
        Inl err \<Rightarrow> Inl err
      | Inr owner \<Rightarrow>
          if owner \<noteq> patientId then Inr st
          else
            (case new_Date e (get_prop appointment ''appointmentDate'') of
               Inl err \<Rightarrow> Inl err
             | Inr d \<Rightarrow>
                 Inr (fst st @ [appointment],
                      if date_ge d todayStart \<and>
                         (get_prop appointment ''status'' = Str ''confirmed'' \<or>
                          get_prop appointment ''status'' = Str ''pending'')
                      then snd st + 1 else snd st)))"

text \<open>
  \<^verbatim>\<open>for (let i = 0; i < appointments.length; i++) { ... }
  return { patientAppointments, upcomingCount };\<close>
\<close>

function filter_loop ::
  "env \<Rightarrow> jsval list \<Rightarrow> string \<Rightarrow> int \<Rightarrow> nat \<Rightarrow> jsval list \<times> nat \<Rightarrow> js_error + filter_result" where
  "filter_loop e appointments patientId todayStart i st =
     (if i < length appointments then
        (case loop_body e patientId todayStart (appointments ! i) st of
           Inl err \<Rightarrow> Inl err
         | Inr st' \<Rightarrow> filter_loop e appointments patientId todayStart (i + 1) st')
      else Inr \<lparr>patientAppointments = fst st, upcomingCount = snd st\<rparr>)"
  by pat_completeness auto
termination
  by (relation "measure (\<lambda>(e, appointments, patientId, todayStart, i, st). length appointments - i)")
     auto

declare filter_loop.simps [simp del]

text \<open>
  \<^verbatim>\<open>export function filterAppointmentsForPatientAndCountUpcoming(appointments, patientId) {
    if (!patientId) return { patientAppointments: [], upcomingCount: 0 };
    const todayStart = new Date();
    todayStart.setHours(0, 0, 0, 0);
    const patientAppointments = [];
    let upcomingCount = 0;
    for (...) {...}
    return { patientAppointments, upcomingCount };
  }\<close>
  The patient id is a string at every call; a string is falsy when it is empty.
\<close>

definition filterAppointmentsForPatientAndCountUpcoming ::
  "env \<Rightarrow> jsval list \<Rightarrow> string \<Rightarrow> js_error + filter_result" where
  "filterAppointmentsForPatientAndCountUpcoming e appointments patientId =
     (if \<not> truthy (Str patientId) then Inr \<lparr>patientAppointments = [], upcomingCount = 0\<rparr>
      else
        (let todayStart = setHours0 (tz e) (now e)
         in filter_loop e appointments patientId todayStart 0 ([], 0)))"

section \<open>Patient dashboard: the load cycle\<close>

text \<open>
  The settled results of the four requests of one load cycle are given to the model:
  \<open>Inl\<close> is a rejection, \<open>Inr\<close> the response. Of a response only the property the
  program reads is kept: an object for \<open>stats\<close>, an array for \<open>appointments\<close>,
  \<open>analyses\<close> and \<open>trends\<close>; \<open>None\<close> stands for a response (or property) that is
  nullish.
\<close>

record outcomes =
  getStats :: "js_error + jsobj option"
  appointments_getAll :: "js_error + jsval list option"
  ai_getAll :: "js_error + jsval list option"
  getTrends :: "js_error + jsval list option"

record dashboard_state =
  stats :: "jsobj option"
  appointments :: "jsval list"
  analyses :: "jsval list"
  trends :: "jsval list"
  loading :: bool
  error :: "js_error option"

text \<open>The \<open>useState\<close> initial values.\<close>

definition initial_dashboard_state :: dashboard_state where
  "initial_dashboard_state =
     \<lparr>stats = None, appointments = [], analyses = [], trends = [], loading = True, error = None\<rparr>"

text \<open>\<open>promise.catch(() => fallback)\<close>\<close>

definition catch_with :: "js_error + 'a \<Rightarrow> 'a \<Rightarrow> 'a" where
  "catch_with r fallback = (case r of Inl err \<Rightarrow> fallback | Inr v \<Rightarrow> v)"

text \<open>\<open>response?.property ?? []\<close>\<close>

definition or_empty :: "'a list option \<Rightarrow> 'a list" where
  "or_empty r = (case r of None \<Rightarrow> [] | Some xs \<Rightarrow> xs)"

text \<open>
  \<open>{ ...statsResponse?.stats, myAppointments: n, upcomingAppointments: c }\<close>. The two
  properties written last are put in front, where \<open>field\<close> finds them first.
\<close>

definition stats_object :: "jsobj option \<Rightarrow> nat \<Rightarrow> nat \<Rightarrow> jsobj" where
  "stats_object response_stats n c =
     (''myAppointments'', Num (int n)) # (''upcomingAppointments'', Num (int c)) #
     or_empty response_stats"

text \<open>
  \<^verbatim>\<open>const fetchDashboardData = async (currentPatientId, isCancelled) => {
    try {
      const [statsResponse, appointmentsResponse, analysesResponse, trendsResponse] =
        await Promise.all([
          userService.getStats(),
          appointmentService.getAll().catch(() => ({ appointments: [] })),
          aiService.getAll().catch(() => ({ analyses: [] })),
          userService.getTrends().catch(() => ({ trends: [] })),
        ]);
      if (isCancelled()) return;
      const allAppointments = appointmentsResponse?.appointments ?? [];
      const { patientAppointments, upcomingCount } =
        filterAppointmentsForPatientAndCountUpcoming(allAppointments, currentPatientId);
      setStats({ ...statsResponse?.stats, myAppointments: patientAppointments.length,
                 upcomingAppointments: upcomingCount });
      setAppointments(patientAppointments);
      setAnalyses(analysesResponse?.analyses ?? []);
      setTrends(trendsResponse?.trends ?? []);
    } catch (err) {
      if (!isCancelled()) { setError(err); console.error('Failed to fetch dashboard data'); }
    } finally {
      if (!isCancelled()) setLoading(false);
    }
  };\<close>
  \<open>Promise.all\<close> rejects exactly when \<open>getStats\<close> does, the three other promises
  having a handler. \<open>cancelled\<close> is what \<open>isCancelled()\<close> returns once the
  \<open>await\<close> resumes; the code after it runs without another suspension. An exception
  of the filter is thrown inside the \<open>try\<close> and caught like a rejection.
\<close>

definition fetchDashboardData ::
  "env \<Rightarrow> string \<Rightarrow> bool \<Rightarrow> outcomes \<Rightarrow> dashboard_state \<Rightarrow> dashboard_state" where
  "fetchDashboardData e currentPatientId cancelled oc st =
     (let caught = (\<lambda>err.
            let st1 = (if \<not> cancelled then st\<lparr>error := Some err\<rparr> else st)
            in if \<not> cancelled then st1\<lparr>loading := False\<rparr> else st1)
      in case getStats oc of
        Inl err \<Rightarrow> caught err
      | Inr statsResponse \<Rightarrow>
          if cancelled then st
          else
            (let appointmentsResponse = catch_with (appointments_getAll oc) (Some []);
                 analysesResponse = catch_with (ai_getAll oc) (Some []);
                 trendsResponse = catch_with (getTrends oc) (Some []);
                 allAppointments = or_empty appointmentsResponse
             in case filterAppointmentsForPatientAndCountUpcoming e allAppointments
                       currentPatientId of
                  Inl err \<Rightarrow> caught err
                | Inr r \<Rightarrow>
                    (let st1 = st\<lparr>stats := Some (stats_object statsResponse
                                          (length (patientAppointments r)) (upcomingCount r)),
                                  appointments := patientAppointments r,
                                  analyses := or_empty analysesResponse,
                                  trends := or_empty trendsResponse\<rparr>
                     in st1\<lparr>loading := False\<rparr>)))"

text \<open>\<open>const userId = user?.id ?? user?._id ?? null;\<close> in \<open>usePatientDashboardData\<close>.\<close>

definition hook_userId :: "jsval \<Rightarrow> jsval" where
  "hook_userId user = coalesce (opt_prop user ''id'') (coalesce (opt_prop user ''_id'') Null)"

text \<open>\<open>const currentPatientId = userId ? String(userId) : '';\<close> in the effect.\<close>

definition effect_currentPatientId :: "jsval \<Rightarrow> js_error + string" where
  "effect_currentPatientId userId = (if truthy userId then String_js userId else Inr '''')"

text \<open>
  The effect of \<open>usePatientDashboardData\<close>, run to the end of its load cycle:
  \<^verbatim>\<open>useEffect(() => {
    const currentPatientId = userId ? String(userId) : '';
    if (!currentPatientId) { setLoading(false); setError(null); return; }
    let cancelled = false;
    const isCancelled = () => cancelled;
    setLoading(true);
    setError(null);
    fetchDashboardData(currentPatientId, isCancelled);
    return () => { cancelled = true; };
  }, [userId]);\<close>
  \<open>Inl\<close> is an exception of the effect itself, thrown by \<open>String(userId)\<close>.
\<close>

definition dashboard_effect ::
  "env \<Rightarrow> jsval \<Rightarrow> bool \<Rightarrow> outcomes \<Rightarrow> dashboard_state \<Rightarrow> js_error + dashboard_state" where
  "dashboard_effect e user cancelled oc st =
     (case effect_currentPatientId (hook_userId user) of
        Inl err \<Rightarrow> Inl err
      | Inr currentPatientId \<Rightarrow>
          if \<not> truthy (Str currentPatientId) then Inr (st\<lparr>loading := False, error := None\<rparr>)
          else Inr (fetchDashboardData e currentPatientId cancelled oc
                      (st\<lparr>loading := True, error := None\<rparr>)))"

subsection \<open>What the dashboard shows\<close>

text \<open>\<open>const RECENT_LIMIT = 3;\<close>\<close>

definition RECENT_LIMIT :: nat where
  "RECENT_LIMIT = 3"

text \<open>
  One point of the chart, as the callback of \<open>trends.map\<close> builds it:
  \<^verbatim>\<open>(entry) => ({
    date: format(new Date(entry.date), 'MMM dd'),
    confidence: entry.confidence ?? 0,
    accuracy: entry.accuracy ?? 0,
  })\<close>
  \<open>format\<close> of the date library throws a RangeError for an Invalid Date. The point
  keeps the instant; the text \<open>MMM dd\<close> made of it is not computed.
\<close>

definition formatted_date :: "env \<Rightarrow> jsval \<Rightarrow> js_error + int" where
  "formatted_date e v =
     (case new_Date e v of
        Inl err \<Rightarrow> Inl err
      | Inr None \<Rightarrow> Inl RangeError
      | Inr (Some t) \<Rightarrow> Inr t)"

definition trends_point :: "env \<Rightarrow> jsval \<Rightarrow> js_error + int \<times> jsval \<times> jsval" where
  "trends_point e entry =
     (if nullish entry then Inl TypeError
      else
        (case formatted_date e (get_prop entry ''date'') of
           Inl err \<Rightarrow> Inl err
         | Inr t \<Rightarrow>
             Inr (t, coalesce (get_prop entry ''confidence'') (Num 0),
                     coalesce (get_prop entry ''accuracy'') (Num 0))))"

definition trendsChartData :: "env \<Rightarrow> jsval list \<Rightarrow> js_error + (int \<times> jsval \<times> jsval) list" where
  "trendsChartData e ts = sequence_result (map (trends_point e) ts)"

text \<open>
  The key of a list element is converted by \<open>'' + key\<close> when the element is created,
  unless it is \<open>undefined\<close>.
\<close>

definition element_key :: "jsval \<Rightarrow> js_error + unit" where
  "element_key k =
     (if k = Undefined then Inr ()
      else (case String_js k of Inl err \<Rightarrow> Inl err | Inr s \<Rightarrow> Inr ()))"

text \<open>
  A method of strings called through \<open>?.\<close> on a value (\<open>toUpperCase\<close>, \<open>substring\<close>):
  skipped for a nullish value, a call for a string, and a TypeError for anything else, which
  has no such method.
\<close>

definition string_method :: "jsval \<Rightarrow> js_error + unit" where
  "string_method v =
     (if nullish v then Inr ()
      else (case v of Str s \<Rightarrow> Inr () | _ \<Rightarrow> Inl TypeError))"

text \<open>
  One entry of "Recent Appointments", as the callback of \<open>recentAppointments.map\<close>
  builds it; the result is the list of the values it hands to React as text.
  \<^verbatim>\<open>(appointment) => (
    <div key={appointment._id} ...>
      ... Dr. {appointment.doctor?.name ?? 'Unknown'} ...
      ... {format(new Date(appointment.appointmentDate), 'MMM dd')}{' '}
          at {appointment.appointmentTime} ...
      <span className={`... ${getStatusBadgeClass(appointment.status)}`}>
        {appointment.status}
      </span>
    </div>)\<close>
  The children are evaluated before the element and its key are made.
\<close>

definition appointment_entry :: "env \<Rightarrow> jsval \<Rightarrow> js_error + jsval list" where
  "appointment_entry e appointment =
     (if nullish appointment then Inl TypeError
      else
        (case formatted_date e (get_prop appointment ''appointmentDate'') of
           Inl err \<Rightarrow> Inl err
         | Inr t \<Rightarrow>
             (case element_key (get_prop appointment ''_id'') of
                Inl err \<Rightarrow> Inl err
              | Inr u \<Rightarrow>
                  Inr [coalesce (opt_prop (get_prop appointment ''doctor'') ''name'') (Str ''Unknown''),
                       get_prop appointment ''appointmentTime'',
                       get_prop appointment ''status''])))"

text \<open>
  One entry of "Recent AI Analyses"; all it hands to React as text are strings.
  \<^verbatim>\<open>(analysis) => (
    <div key={analysis._id} ...>
      ... {format(new Date(analysis.createdAt), 'MMM dd')} ...
      <span className={`... ${getSeverityClass(analysis.aiResponse?.severity)}`}>
        {analysis.aiResponse?.severity?.toUpperCase() ?? 'LOW'}
      </span>
      ... {analysis.userInput?.substring(0, 100)}... ...
    </div>)\<close>
\<close>

definition analysis_entry :: "env \<Rightarrow> jsval \<Rightarrow> js_error + unit" where
  "analysis_entry e analysis =
     (if nullish analysis then Inl TypeError
      else
        (case formatted_date e (get_prop analysis ''createdAt'') of
           Inl err \<Rightarrow> Inl err
         | Inr t \<Rightarrow>
             (case string_method (opt_prop (get_prop analysis ''aiResponse'') ''severity'') of
                Inl err \<Rightarrow> Inl err
              | Inr u \<Rightarrow>
                  (case string_method (get_prop analysis ''userInput'') of
                     Inl err \<Rightarrow> Inl err
                   | Inr u \<Rightarrow> element_key (get_prop analysis ''_id'')))))"

text \<open>
  What React accepts as a child: text, numbers, booleans, \<open>null\<close>, \<open>undefined\<close> and
  arrays of such; for any other object it throws.
\<close>

fun valid_child :: "jsval \<Rightarrow> bool" where
  "valid_child (Obj ps) = False"
| "valid_child (Arr vs) = list_all valid_child vs"
| "valid_child _ = True"

text \<open>
  The overview: the header with \<open>user?.name\<close>, the four statistics
  \<open>stats?.myAppointments ?? 0\<close>, \<open>stats?.upcomingAppointments ?? 0\<close>,
  \<open>stats?.myAnalyses ?? 0\<close>, \<open>stats?.myReports ?? 0\<close>, the entries of the first
  \<open>RECENT_LIMIT\<close> appointments and analyses, and the chart when there are trends. An
  exception of an entry leaves the component; otherwise React renders the elements and
  throws if a value given as text is an object. What the chart library does with the
  points is not modelled.
\<close>

definition stat_value :: "jsobj option \<Rightarrow> string \<Rightarrow> jsval" where
  "stat_value st k = coalesce (case st of None \<Rightarrow> Undefined | Some ps \<Rightarrow> field ps k) (Num 0)"

definition overview :: "env \<Rightarrow> jsval \<Rightarrow> jsobj option \<Rightarrow> jsval list \<Rightarrow> jsval list \<Rightarrow> js_error + unit" where
  "overview e user st recentAppointments recentAnalyses =
     (case sequence_result (map (appointment_entry e) recentAppointments) of
        Inl err \<Rightarrow> Inl err
      | Inr texts \<Rightarrow>
          (case sequence_result (map (analysis_entry e) recentAnalyses) of
             Inl err \<Rightarrow> Inl err
           | Inr us \<Rightarrow>
               if list_all valid_child
                    ([opt_prop user ''name'', stat_value st ''myAppointments'',
                      stat_value st ''upcomingAppointments'', stat_value st ''myAnalyses'',
                      stat_value st ''myReports''] @ concat texts)
               then Inr () else Inl ReactChildError))"

text \<open>
  \<open>PatientDashboard\<close>: what is shown, or the exception of the render. The memo over the
  trends runs first, in every render; then come the loading notice, the alert "Failed to
  load dashboard" with \<open>error.message\<close>, and otherwise the overview.
  \<^verbatim>\<open>const trendsChartData = useMemo(() => trends.map(...), [trends]);
  if (loading) { return (<div role="status" ...>Loading...</div>); }
  if (error) { return (<div role="alert"> ... {error.message} ... </div>); }
  return (<div className="space-y-6"> ... </div>);\<close>
  with \<open>recentAppointments = appointments.slice(0, RECENT_LIMIT)\<close> and
  \<open>recentAnalyses = analyses.slice(0, RECENT_LIMIT)\<close>.
\<close>

datatype dashboard_view = Loading_view | Failed_view js_error | Overview_view

definition PatientDashboard_view ::
  "env \<Rightarrow> jsval \<Rightarrow> dashboard_state \<Rightarrow> js_error + dashboard_view" where
  "PatientDashboard_view e user st =
     (case trendsChartData e (trends st) of
        Inl err \<Rightarrow> Inl err
      | Inr chart \<Rightarrow>
          if loading st then Inr Loading_view
          else
            (case error st of
               Some err \<Rightarrow> Inr (Failed_view err)
             | None \<Rightarrow>
                 (case overview e user (stats st) (take RECENT_LIMIT (appointments st))
                         (take RECENT_LIMIT (analyses st)) of
                    Inl err \<Rightarrow> Inl err
                  | Inr u \<Rightarrow> Inr Overview_view)))"

section \<open>Booking form: validation\<close>

text \<open>
  \<^verbatim>\<open>const BUSINESS_HOURS = { start: 9, end: 17 }; // 9 AM - 5 PM
  const REASON_MIN_LENGTH = 10;\<close>
\<close>

definition BUSINESS_HOURS_start :: int where
  "BUSINESS_HOURS_start = 9"

definition BUSINESS_HOURS_end :: int where
  "BUSINESS_HOURS_end = 17"

definition REASON_MIN_LENGTH :: nat where
  "REASON_MIN_LENGTH = 10"

text \<open>
  \<^verbatim>\<open>export function isDateInFuture(dateStr) {
    if (!dateStr) return false;
    const today = new Date();
    today.setHours(0, 0, 0, 0);
    const chosen = new Date(dateStr);
    chosen.setHours(0, 0, 0, 0);
    return chosen >= today;
  }\<close>
  \<open>setHours\<close> leaves an Invalid Date invalid.
\<close>

definition isDateInFuture :: "env \<Rightarrow> string \<Rightarrow> bool" where
  "isDateInFuture e dateStr =
     (if \<not> truthy (Str dateStr) then False
      else
        (let today = setHours0 (tz e) (now e);
             chosen = map_option (setHours0 (tz e)) (Date_of_string e dateStr)
         in date_ge chosen today))"

subsection \<open>Strings and numbers of the time field\<close>

text \<open>
  The white space of \<open>String.prototype.trim\<close> and of \<open>Number\<close> among the 8-bit code
  units: tab, line feed, vertical tab, form feed, carriage return, space, no-break space.
\<close>

definition is_space :: "char \<Rightarrow> bool" where
  "is_space c = ((of_char c :: nat) \<in> {9, 10, 11, 12, 13, 32, 160})"

definition trim :: "string \<Rightarrow> string" where
  "trim s = rev (dropWhile is_space (rev (dropWhile is_space s)))"

text \<open>\<open>s.split(c)\<close> for a separator of one character.\<close>

fun split_on :: "char \<Rightarrow> string \<Rightarrow> string list" where
  "split_on c [] = [[]]"
| "split_on c (x # xs) =
     (if x = c then [] # split_on c xs
      else (case split_on c xs of r # rs \<Rightarrow> (x # r) # rs | [] \<Rightarrow> [[x]]))"

text \<open>A number is an integer or NaN (\<open>None\<close>).\<close>

type_synonym jsnum = "int option"

definition unsigned_digits :: "string \<Rightarrow> jsnum" where
  "unsigned_digits ds = (if ds \<noteq> [] \<and> list_all is_digit ds then Some (digits_value ds) else None)"

text \<open>
  \<open>Number(s)\<close> for a string, on the strings made of decimal digits with an optional
  sign: white space around them is dropped, and the empty string is \<open>0\<close>. Every other
  string is NaN here. JavaScript also reads fractions, exponents, radix prefixes and
  \<open>Infinity\<close> as numbers; the hour and minute of a time input hold none of them, and the
  properties below are stated for such times only.
\<close>

definition Number_str :: "string \<Rightarrow> jsnum" where
  "Number_str s =
     (case trim s of
        [] \<Rightarrow> Some 0
      | c # cs \<Rightarrow>
          if c = CHR ''+'' then unsigned_digits cs
          else if c = CHR ''-'' then map_option uminus (unsigned_digits cs)
          else unsigned_digits (c # cs))"

text \<open>
  \<^verbatim>\<open>export function isBusinessHours(timeStr) {
    if (!timeStr) return false;
    const [h, m] = timeStr.split(':').map(Number);
    const minutes = h * 60 + (m ?? 0);
    const startMinutes = BUSINESS_HOURS.start * 60;
    const endMinutes = BUSINESS_HOURS.end * 60;
    return minutes >= startMinutes && minutes <= endMinutes;
  }\<close>
  \<open>m\<close> is \<open>undefined\<close> when the split has one part only. Arithmetic on NaN is NaN
  and a comparison with NaN is false.
\<close>

definition isBusinessHours :: "string \<Rightarrow> bool" where
  "isBusinessHours timeStr =
     (if \<not> truthy (Str timeStr) then False
      else
        (let parts = map Number_str (split_on CHR '':'' timeStr);
             h = (case parts of [] \<Rightarrow> None | x # _ \<Rightarrow> x);
             m = (case parts of _ # y # _ \<Rightarrow> y | _ \<Rightarrow> Some 0);
             minutes = (case (h, m) of (Some a, Some b) \<Rightarrow> Some (a * 60 + b) | _ \<Rightarrow> None);
             startMinutes = BUSINESS_HOURS_start * 60;
             endMinutes = BUSINESS_HOURS_end * 60
         in (case minutes of
               None \<Rightarrow> False
             | Some k \<Rightarrow> k \<ge> startMinutes \<and> k \<le> endMinutes)))"

subsection \<open>Field and form validation\<close>

record formData =
  doctor :: string
  appointmentDate :: string
  appointmentTime :: string
  reason :: string
  symptoms :: string

text \<open>The error map has the keys \<open>doctor\<close>, \<open>appointmentDate\<close>, \<open>appointmentTime\<close>, \<open>reason\<close>.\<close>

record fieldErrors =
  doctor_error :: string
  appointmentDate_error :: string
  appointmentTime_error :: string
  reason_error :: string

definition initialFormData :: formData where
  "initialFormData =
     \<lparr>doctor = '''', appointmentDate = '''', appointmentTime = '''', reason = '''', symptoms = ''''\<rparr>"

definition initialErrors :: fieldErrors where
  "initialErrors =
     \<lparr>doctor_error = '''', appointmentDate_error = '''', appointmentTime_error = '''',
      reason_error = ''''\<rparr>"

text \<open>
  \<^verbatim>\<open>export function getFieldValidationError(name, value) {
    switch (name) {
      case 'doctor':
        return value ? '' : 'Doctor selection is required';
      case 'appointmentDate':
        return value ? isDateInFuture(value) ? '' : 'Date must be in the future' : '';
      case 'appointmentTime':
        return value
          ? isBusinessHours(value) ? ''
            : `Time must be during business hours (${BUSINESS_HOURS.start} AM - ${BUSINESS_HOURS.end} PM)`
          : '';
      case 'reason':
        return value
          ? value.trim().length >= REASON_MIN_LENGTH ? ''
            : `Reason must be at least ${REASON_MIN_LENGTH} characters`
          : 'Reason must be at least 10 characters';
      default:
        return '';
    }
  }\<close>
  The value of a form field is a string.
\<close>

definition getFieldValidationError :: "env \<Rightarrow> string \<Rightarrow> string \<Rightarrow> string" where
  "getFieldValidationError e name val =
     (if name = ''doctor'' then
        (if truthy (Str val) then '''' else ''Doctor selection is required'')
      else if name = ''appointmentDate'' then
        (if truthy (Str val)
         then (if isDateInFuture e val then '''' else ''Date must be in the future'')
         else '''')
      else if name = ''appointmentTime'' then
        (if truthy (Str val)
         then (if isBusinessHours val then ''''
               else ''Time must be during business hours ('' @ dec_int BUSINESS_HOURS_start @
                    '' AM - '' @ dec_int BUSINESS_HOURS_end @ '' PM)'')
         else '''')
      else if name = ''reason'' then
        (if truthy (Str val)
         then (if length (trim val) \<ge> REASON_MIN_LENGTH then ''''
               else ''Reason must be at least '' @ dec_nat REASON_MIN_LENGTH @ '' characters'')
         else ''Reason must be at least 10 characters'')
      else '''')"

text \<open>
  \<^verbatim>\<open>export function validateBookingForm(data) {
    return {
      doctor: getFieldValidationError('doctor', data.doctor),
      appointmentDate: getFieldValidationError('appointmentDate', data.appointmentDate),
      appointmentTime: getFieldValidationError('appointmentTime', data.appointmentTime),
      reason: getFieldValidationError('reason', data.reason),
    };
  }\<close>
\<close>

definition validateBookingForm :: "env \<Rightarrow> formData \<Rightarrow> fieldErrors" where
  "validateBookingForm e data =
     \<lparr>doctor_error = getFieldValidationError e ''doctor'' (doctor data),
      appointmentDate_error = getFieldValidationError e ''appointmentDate'' (appointmentDate data),
      appointmentTime_error = getFieldValidationError e ''appointmentTime'' (appointmentTime data),
      reason_error = getFieldValidationError e ''reason'' (reason data)\<rparr>"

section \<open>Booking view\<close>

text \<open>The state of the \<open>Appointments\<close> component that validation and loading touch.\<close>

record booking_state =
  bookedAppointments :: "jsval list"
  doctors :: "jsval list"
  bookingLoading :: bool
  showForm :: bool
  form :: formData
  errors :: fieldErrors
  submitError :: string
  successMessage :: string
  submitting :: bool

definition initial_booking_state :: booking_state where
  "initial_booking_state =
     \<lparr>bookedAppointments = [], doctors = [], bookingLoading = True, showForm = False,
      form = initialFormData, errors = initialErrors, submitError = '''',
      successMessage = '''', submitting = False\<rparr>"

text \<open>
  \<^verbatim>\<open>const isFormValid = useMemo(() => {
    const fieldErrors = validateBookingForm(formData);
    return (!fieldErrors.doctor && !fieldErrors.appointmentDate &&
            !fieldErrors.appointmentTime && !fieldErrors.reason);
  }, [formData]);\<close>
\<close>

definition isFormValid :: "env \<Rightarrow> formData \<Rightarrow> bool" where
  "isFormValid e data =
     (let fieldErrors = validateBookingForm e data
      in \<not> truthy (Str (doctor_error fieldErrors)) \<and>
         \<not> truthy (Str (appointmentDate_error fieldErrors)) \<and>
         \<not> truthy (Str (appointmentTime_error fieldErrors)) \<and>
         \<not> truthy (Str (reason_error fieldErrors)))"

text \<open>The submit button: \<open>disabled={!isFormValid || submitting}\<close>.\<close>

definition submit_disabled :: "env \<Rightarrow> booking_state \<Rightarrow> bool" where
  "submit_disabled e st = (\<not> isFormValid e (form st) \<or> submitting st)"

text \<open>
  \<open>handleSubmit\<close> up to its \<open>await\<close>: the new state, and the form data handed to
  \<open>appointmentService.create\<close> when the request is made.
  \<^verbatim>\<open>const handleSubmit = async (e) => {
    e.preventDefault();
    const fieldErrors = validateBookingForm(formData);
    setErrors(fieldErrors);
    if (fieldErrors.doctor || fieldErrors.appointmentDate ||
        fieldErrors.appointmentTime || fieldErrors.reason) {
      return;
    }
    setSubmitting(true);
    setSubmitError('');
    try {
      await appointmentService.create(formData);
      ...\<close>
\<close>

definition handleSubmit :: "env \<Rightarrow> booking_state \<Rightarrow> booking_state \<times> formData option" where
  "handleSubmit e st =
     (let fieldErrors = validateBookingForm e (form st);
          st1 = st\<lparr>errors := fieldErrors\<rparr>
      in if truthy (Str (doctor_error fieldErrors)) \<or>
            truthy (Str (appointmentDate_error fieldErrors)) \<or>
            truthy (Str (appointmentTime_error fieldErrors)) \<or>
            truthy (Str (reason_error fieldErrors))
         then (st1, None)
         else (st1\<lparr>submitting := True, submitError := ''''\<rparr>, Some (form st)))"

text \<open>
  \<^verbatim>\<open>const loadAppointments = async (isCancelled) => {
    try {
      const { appointments: data } = await appointmentService.getAll();
      if (!isCancelled()) setAppointments(data ?? []);
    } catch {
      if (!isCancelled()) setAppointments([]);
      console.error('Failed to fetch appointments');
    } finally {
      if (!isCancelled()) setLoading(false);
    }
  };\<close>
  \<open>None\<close> is a response without \<open>appointments\<close>, or no response object at all: the
  destructuring then throws and the handler sets the same empty list.
\<close>

definition loadAppointments ::
  "bool \<Rightarrow> js_error + jsval list option \<Rightarrow> booking_state \<Rightarrow> booking_state" where
  "loadAppointments cancelled result st =
     (let st1 = (case result of
                   Inr data \<Rightarrow> if \<not> cancelled then st\<lparr>bookedAppointments := or_empty data\<rparr> else st
                 | Inl err \<Rightarrow> if \<not> cancelled then st\<lparr>bookedAppointments := []\<rparr> else st)
      in if \<not> cancelled then st1\<lparr>bookingLoading := False\<rparr> else st1)"

text \<open>
  \<^verbatim>\<open>const loadDoctors = async (isCancelled) => {
    try {
      const { users } = await userService.getAll({ role: 'doctor' });
      if (!isCancelled()) setDoctors(users ?? []);
    } catch {
      console.error('Failed to fetch doctors');
    }
  };\<close>
\<close>

definition loadDoctors ::
  "bool \<Rightarrow> js_error + jsval list option \<Rightarrow> booking_state \<Rightarrow> booking_state" where
  "loadDoctors cancelled result st =
     (case result of
        Inr users \<Rightarrow> if \<not> cancelled then st\<lparr>doctors := or_empty users\<rparr> else st
      | Inl err \<Rightarrow> st)"

section \<open>The statements of the specification\<close>

subsection \<open>Owner resolution as the specification words it\<close>

definition primitive :: "jsval \<Rightarrow> bool" where
  "primitive v = (case v of Arr _ \<Rightarrow> False | Obj _ \<Rightarrow> False | _ \<Rightarrow> True)"

definition first_non_nullish :: "jsval list \<Rightarrow> jsval option" where
  "first_non_nullish vs = find (\<lambda>v. \<not> nullish v) vs"

text \<open>
  The specification's \<open>resolveAppointmentOwnerId\<close>: "evaluate, in order,
  \<open>record.ownerRefObj._id\<close>, \<open>record.ownerRef\<close> (if primitive), \<open>record.patientId\<close>,
  \<open>record.userObj._id\<close>, \<open>record.userObj\<close> (if primitive), \<open>record.userId\<close>; return the
  first value that is not nullish, coerced to string; return \<open>''\<close> if none match. No
  error is raised for malformed records - absence degrades gracefully to the empty
  string." The coercion is \<open>String\<close>.
\<close>

definition spec_candidates :: "jsval \<Rightarrow> jsval list" where
  "spec_candidates r =
     [opt_prop (get_prop r ''patient'') ''_id'',
      (if primitive (get_prop r ''patient'') then get_prop r ''patient'' else Undefined),
      get_prop r ''patientId'',
      opt_prop (get_prop r ''user'') ''_id'',
      (if primitive (get_prop r ''user'') then get_prop r ''user'' else Undefined),
      get_prop r ''userId'']"

definition resolveAppointmentOwnerId_spec :: "jsval \<Rightarrow> js_error + string" where
  "resolveAppointmentOwnerId_spec r =
     (case first_non_nullish (spec_candidates r) of Some v \<Rightarrow> String_js v | None \<Rightarrow> Inr '''')"

text \<open>The six operands of the \<open>??\<close> chain of \<open>getPatientIdFromAppointment\<close>, in order.\<close>

definition owner_candidates :: "jsval \<Rightarrow> jsval list" where
  "owner_candidates r =
     [opt_prop (get_prop r ''patient'') ''_id'',
      get_prop r ''patient'',
      get_prop r ''patientId'',
      opt_prop (get_prop r ''user'') ''_id'',
      get_prop r ''user'',
      get_prop r ''userId'']"

text \<open>
  An owner reference of one of the shapes the data model names: a primitive (a bare id,
  or absent) or an object with an \<open>_id\<close>. A record is well shaped when it is not
  nullish and its \<open>patient\<close> and \<open>user\<close> are such references.
\<close>

definition owner_shaped :: "jsval \<Rightarrow> bool" where
  "owner_shaped x = (primitive x \<or> \<not> nullish (opt_prop x ''_id''))"

definition well_shaped :: "jsval \<Rightarrow> bool" where
  "well_shaped r =
     (\<not> nullish r \<and> owner_shaped (get_prop r ''patient'') \<and> owner_shaped (get_prop r ''user''))"

subsection \<open>A single traversal\<close>

text \<open>
  One pass over a list from left to right: each element is handed once to the step, with
  the state the elements before it left, and the pass ends at the first exception.
\<close>

fun fold_result :: "('a \<Rightarrow> 's \<Rightarrow> 'e + 's) \<Rightarrow> 'a list \<Rightarrow> 's \<Rightarrow> 'e + 's" where
  "fold_result f [] s = Inr s"
| "fold_result f (x # xs) s =
     (case f x s of Inl err \<Rightarrow> Inl err | Inr s' \<Rightarrow> fold_result f xs s')"

definition loop_result :: "js_error + jsval list \<times> nat \<Rightarrow> js_error + filter_result" where
  "loop_result r =
     (case r of
        Inl err \<Rightarrow> Inl err
      | Inr st \<Rightarrow> Inr \<lparr>patientAppointments = fst st, upcomingCount = snd st\<rparr>)"

text \<open>
  The records at which the loop throws for a patient id: the owner resolution throws, or
  the record is the patient's and the \<open>Date\<close> constructor throws on its date.
\<close>

definition record_raises :: "env \<Rightarrow> string \<Rightarrow> jsval \<Rightarrow> bool" where
  "record_raises e patientId r =
     (case getPatientIdFromAppointment r of
        Inl err \<Rightarrow> True
      | Inr owner \<Rightarrow>
          owner = patientId \<and> isl (new_Date e (get_prop r ''appointmentDate'')))"

subsection \<open>Upcoming appointments as the specification words them\<close>

text \<open>The local calendar day of an instant: the date without the time of day.\<close>

definition local_day :: "int \<Rightarrow> int \<Rightarrow> int" where
  "local_day z t = (t + z) div ms_per_day"

text \<open>
  The day a record is dated: the day its \<open>appointmentDate\<close> names when that is a
  date-only string, and otherwise the local day of the instant the value stands for.
\<close>

definition record_day :: "env \<Rightarrow> jsval \<Rightarrow> int option" where
  "record_day e v =
     (case (case v of Str s \<Rightarrow> iso_date_days s | _ \<Rightarrow> None) of
        Some d \<Rightarrow> Some d
      | None \<Rightarrow>
          (case new_Date e v of
             Inr (Some t) \<Rightarrow> Some (local_day (tz e) t)
           | _ \<Rightarrow> None))"

text \<open>
  "The record's \<open>appointmentDate\<close> is on or after today at local midnight (date-only
  comparison, time-of-day on the date value is irrelevant)": the day the record is dated
  is today's local day or a later one.
\<close>

definition dated_today_or_later :: "env \<Rightarrow> jsval \<Rightarrow> bool" where
  "dated_today_or_later e r =
     (case record_day e (get_prop r ''appointmentDate'') of
        None \<Rightarrow> False
      | Some d \<Rightarrow> local_day (tz e) (now e) \<le> d)"

text \<open>"Upcoming: an appointment dated today or later with status pending or confirmed."\<close>

definition spec_upcoming :: "env \<Rightarrow> jsval \<Rightarrow> bool" where
  "spec_upcoming e r =
     (dated_today_or_later e r \<and>
      get_prop r ''status'' \<in> {Str ''pending'', Str ''confirmed''})"

text \<open>What the loop tests instead: the instant of the date against today's local midnight.\<close>

definition code_upcoming :: "env \<Rightarrow> jsval \<Rightarrow> bool" where
  "code_upcoming e r =
     ((case new_Date e (get_prop r ''appointmentDate'') of
         Inl err \<Rightarrow> False
       | Inr d \<Rightarrow> date_ge d (setHours0 (tz e) (now e))) \<and>
      (get_prop r ''status'' = Str ''confirmed'' \<or> get_prop r ''status'' = Str ''pending''))"

subsection \<open>Times of day\<close>

text \<open>The value \<open>HH:MM\<close> of a time input for hour \<open>h\<close> and minute \<open>m\<close>.\<close>

definition two_digits :: "nat \<Rightarrow> string" where
  "two_digits n = [digit_char (n div 10), digit_char (n mod 10)]"

definition hhmm :: "nat \<Rightarrow> nat \<Rightarrow> string" where
  "hhmm h m = two_digits h @ '':'' @ two_digits m"

section \<open>Example data\<close>

text \<open>
  Two runtimes on 10 February 2025, neither with a parser for other date strings: noon
  UTC on a device three hours east of UTC, and 15:00 UTC (10:00 local time) on a device
  five hours west of UTC.
\<close>

definition example_env :: env where
  "example_env = \<lparr>now = 1739188800000, tz = 10800000, Date_parse = (\<lambda>s. None)\<rparr>"

definition example_env_west :: env where
  "example_env_west = \<lparr>now = 1739199600000, tz = - 18000000, Date_parse = (\<lambda>s. None)\<rparr>"

text \<open>
  The list of the repository's test of the filter: owners \<open>p1, p2, p1, p1\<close> with statuses
  confirmed, pending, cancelled, pending, all dated today.
\<close>

definition example_record :: "string \<Rightarrow> string \<Rightarrow> string \<Rightarrow> jsval" where
  "example_record i p s =
     Obj [(''_id'', Str i), (''patient'', Str p), (''appointmentDate'', Str ''2025-02-10''),
          (''status'', Str s)]"

definition example_list :: "jsval list" where
  "example_list =
     [example_record ''1'' ''p1'' ''confirmed'',
      example_record ''2'' ''p2'' ''pending'',
      example_record ''3'' ''p1'' ''cancelled'',
      example_record ''4'' ''p1'' ''pending'']"

text \<open>
  The user and the service responses of the repository's dashboard test, with the list
  above owned by that user.
\<close>

definition example_user :: jsval where
  "example_user =
     Obj [(''id'', Str ''patient-1''), (''_id'', Str ''patient-1''), (''name'', Str ''Test Patient'')]"

definition example_outcomes :: outcomes where
  "example_outcomes =
     \<lparr>getStats = Inr (Some [(''myAnalyses'', Num 0), (''myReports'', Num 0)]),
      appointments_getAll = Inr (Some [example_record ''a1'' ''patient-1'' ''confirmed'',
                                       example_record ''a2'' ''patient-2'' ''pending'']),
      ai_getAll = Inr (Some []),
      getTrends = Inr (Some [])\<rparr>"

text \<open>
  A record whose \<open>patient\<close> was populated without an \<open>_id\<close> and that also carries a
  \<open>patientId\<close>; a record with a populated patient and a plain user id; a record whose
  \<open>patient\<close> object has a property named \<open>toString\<close>.
\<close>

definition example_populated_without_id :: jsval where
  "example_populated_without_id =
     Obj [(''_id'', Str ''a7''), (''patient'', Obj [(''name'', Str ''Ann'')]),
          (''patientId'', Str ''p3'')]"

definition example_populated :: jsval where
  "example_populated =
     Obj [(''_id'', Str ''a8''), (''patient'', Obj [(''_id'', Str ''p1''), (''name'', Str ''Ann'')]),
          (''user'', Str ''u9'')]"

definition example_uncoercible :: jsval where
  "example_uncoercible =
     Obj [(''_id'', Str ''a9''), (''patient'', Obj [(''toString'', Str ''x'')])]"

text \<open>A user whose storage id and authentication id differ, as in the repository's test.\<close>

definition example_user_two_ids :: jsval where
  "example_user_two_ids = Obj [(''_id'', Str ''a''), (''id'', Str ''b'')]"

text \<open>A booking form with a doctor and a reason, the date and the time left empty.\<close>

definition example_booking_state :: booking_state where
  "example_booking_state =
     initial_booking_state\<lparr>showForm := True,
       form := \<lparr>doctor = ''d1'', appointmentDate = '''', appointmentTime = '''',
                reason = ''Checkup and tests'', symptoms = ''''\<rparr>\<rparr>"

section \<open>Properties\<close>

subsection \<open>The filter loop\<close>

text \<open>The loop from index \<open>i\<close> is one pass over the rest of the list.\<close>

lemma filter_loop_fold:
  "filter_loop e apps pid ts i st =
     loop_result (fold_result (loop_body e pid ts) (drop i apps) st)"
proof (induction e apps pid ts i st rule: filter_loop.induct)
  case (1 e apps pid ts i st)
  show ?case
  proof (cases "i < length apps")
    case False
    then show ?thesis
      by (simp add: filter_loop.simps loop_result_def)
  next
    case True
    then have d: "drop i apps = apps ! i # drop (Suc i) apps"
      by (simp add: Cons_nth_drop_Suc)
    show ?thesis
    proof (cases "loop_body e pid ts (apps ! i) st")
      case (Inl err)
      with True d show ?thesis
        by (subst filter_loop.simps) (simp add: loop_result_def)
    next
      case (Inr st')
      with True d "1.IH" [OF True Inr] show ?thesis
        by (subst filter_loop.simps) simp
    qed
  qed
qed

text \<open>
  When the pass returns, it has appended the records of the patient in order and counted
  those of them that pass the date and status test of the loop.
\<close>

lemma fold_loop_body_Inr:
  "fold_result (loop_body e pid (setHours0 (tz e) (now e))) xs st = Inr st' \<Longrightarrow>
   fst st' = fst st @ filter (\<lambda>a. getPatientIdFromAppointment a = Inr pid) xs \<and>
   snd st' = snd st +
     length (filter (\<lambda>a. getPatientIdFromAppointment a = Inr pid \<and> code_upcoming e a) xs)"
proof (induction xs arbitrary: st)
  case Nil
  then show ?case by simp
next
  case (Cons x xs)
  from Cons.prems obtain st1 where
    b: "loop_body e pid (setHours0 (tz e) (now e)) x st = Inr st1" and
    r: "fold_result (loop_body e pid (setHours0 (tz e) (now e))) xs st1 = Inr st'"
    by (auto split: sum.splits)
  from b have
    "fst st1 = fst st @ filter (\<lambda>a. getPatientIdFromAppointment a = Inr pid) [x] \<and>
     snd st1 = snd st +
       length (filter (\<lambda>a. getPatientIdFromAppointment a = Inr pid \<and> code_upcoming e a) [x])"
    by (auto simp: loop_body_def code_upcoming_def split: sum.splits if_splits)
  with Cons.IH [OF r] show ?case by auto
qed

text \<open>The pass returns when no record throws, and only then.\<close>

lemma fold_loop_body_returns:
  "(\<forall>a \<in> set xs. \<not> record_raises e pid a) \<Longrightarrow>
   \<exists>st'. fold_result (loop_body e pid ts) xs st = Inr st'"
proof (induction xs arbitrary: st)
  case Nil
  then show ?case by simp
next
  case (Cons x xs)
  from Cons.prems have "\<not> record_raises e pid x" by simp
  then have "\<exists>st1. loop_body e pid ts x st = Inr st1"
    by (cases "getPatientIdFromAppointment x";
        cases "new_Date e (get_prop x ''appointmentDate'')")
       (simp_all add: record_raises_def loop_body_def)
  then obtain st1 where "loop_body e pid ts x st = Inr st1" ..
  with Cons show ?case by simp
qed

lemma fold_loop_body_Inl:
  "fold_result (loop_body e pid ts) xs st = Inl err \<Longrightarrow> \<exists>a \<in> set xs. record_raises e pid a"
  using fold_loop_body_returns [of xs e pid ts st] by auto

lemma filter_as_fold:
  "pid \<noteq> [] \<Longrightarrow>
   filterAppointmentsForPatientAndCountUpcoming e apps pid =
     loop_result (fold_result (loop_body e pid (setHours0 (tz e) (now e))) apps ([], 0))"
  by (simp add: filterAppointmentsForPatientAndCountUpcoming_def filter_loop_fold)

lemma filter_result_empty:
  "filterAppointmentsForPatientAndCountUpcoming e apps [] =
     Inr \<lparr>patientAppointments = [], upcomingCount = 0\<rparr>"
  by (simp add: filterAppointmentsForPatientAndCountUpcoming_def)

lemma filter_Inr:
  assumes "filterAppointmentsForPatientAndCountUpcoming e apps pid = Inr r" "pid \<noteq> []"
  shows "patientAppointments r = filter (\<lambda>a. getPatientIdFromAppointment a = Inr pid) apps"
    and "upcomingCount r =
      length (filter (\<lambda>a. getPatientIdFromAppointment a = Inr pid \<and> code_upcoming e a) apps)"
proof -
  from assms obtain st' where
    f: "fold_result (loop_body e pid (setHours0 (tz e) (now e))) apps ([], 0) = Inr st'" and
    r: "r = \<lparr>patientAppointments = fst st', upcomingCount = snd st'\<rparr>"
    by (auto simp: filter_as_fold loop_result_def split: sum.splits)
  from fold_loop_body_Inr [OF f] r
  show "patientAppointments r = filter (\<lambda>a. getPatientIdFromAppointment a = Inr pid) apps"
    and "upcomingCount r =
      length (filter (\<lambda>a. getPatientIdFromAppointment a = Inr pid \<and> code_upcoming e a) apps)"
    by simp_all
qed

lemma filter_returns:
  assumes "\<forall>a \<in> set apps. \<not> record_raises e pid a"
  shows "\<exists>r. filterAppointmentsForPatientAndCountUpcoming e apps pid = Inr r"
proof (cases "pid = []")
  case True
  then show ?thesis by (simp add: filter_result_empty)
next
  case False
  from fold_loop_body_returns [OF assms]
  obtain st' where
    "fold_result (loop_body e pid (setHours0 (tz e) (now e))) apps ([], 0) = Inr st'"
    by blast
  with False show ?thesis by (simp add: filter_as_fold loop_result_def)
qed

lemma filter_Inl:
  assumes "filterAppointmentsForPatientAndCountUpcoming e apps pid = Inl err"
  shows "\<exists>a \<in> set apps. record_raises e pid a"
  using filter_returns [of apps e pid] assms by auto

lemma filter_eval:
  assumes "pid \<noteq> []" "\<forall>a \<in> set apps. \<not> record_raises e pid a"
  shows "filterAppointmentsForPatientAndCountUpcoming e apps pid =
     Inr \<lparr>patientAppointments = filter (\<lambda>a. getPatientIdFromAppointment a = Inr pid) apps,
          upcomingCount =
            length (filter (\<lambda>a. getPatientIdFromAppointment a = Inr pid \<and> code_upcoming e a) apps)\<rparr>"
proof -
  from filter_returns [OF assms(2)] obtain r where
    r: "filterAppointmentsForPatientAndCountUpcoming e apps pid = Inr r" by blast
  from filter_Inr [OF r assms(1)] r show ?thesis by simp
qed

lemma upcomingCount_of_result:
  assumes "filterAppointmentsForPatientAndCountUpcoming e apps pid = Inr r"
  shows "upcomingCount r = length (filter (code_upcoming e) (patientAppointments r))"
proof (cases "pid = []")
  case True
  with assms show ?thesis by (auto simp: filter_result_empty)
next
  case False
  from filter_Inr [OF assms False] show ?thesis
    by (simp add: conj_commute)
qed

subsection \<open>Days and instants\<close>

text \<open>
  An instant is at or after the local midnight of \<open>n\<close> exactly when its local day is the
  day of \<open>n\<close> or a later one: the time of day of either instant plays no part.
\<close>

lemma le_setHours0_iff:
  "setHours0 z n \<le> t \<longleftrightarrow> local_day z n \<le> local_day z t"
proof -
  define q where "q = (n + z) div ms_per_day"
  have D: "0 < ms_per_day" by (simp add: ms_per_day_def)
  have "n + z = q * ms_per_day + (n + z) mod ms_per_day"
    by (simp add: q_def)
  then have s: "setHours0 z n = q * ms_per_day - z"
    by (simp add: setHours0_def)
  have "q * ms_per_day \<le> t + z \<longleftrightarrow> q \<le> (t + z) div ms_per_day"
  proof
    assume "q * ms_per_day \<le> t + z"
    then have "(q * ms_per_day) div ms_per_day \<le> (t + z) div ms_per_day"
      using D by (rule zdiv_mono1)
    then show "q \<le> (t + z) div ms_per_day" using D by simp
  next
    assume "q \<le> (t + z) div ms_per_day"
    then have "q * ms_per_day \<le> ((t + z) div ms_per_day) * ms_per_day"
      using D by simp
    also have "\<dots> = (t + z) - (t + z) mod ms_per_day"
      by (simp add: minus_mod_eq_mult_div mult.commute)
    also have "\<dots> \<le> t + z"
      using D by simp
    finally show "q * ms_per_day \<le> t + z" .
  qed
  with s show ?thesis by (simp add: q_def local_day_def) linarith
qed

text \<open>
  The UTC midnight of a day lies on that day in local time exactly on the devices at or
  east of UTC (and less than a day ahead of it).
\<close>

lemma local_day_of_utc_midnight:
  assumes "0 \<le> z" "z < ms_per_day"
  shows "local_day z (d * ms_per_day) = d"
proof -
  have "(z + d * ms_per_day) div ms_per_day = z div ms_per_day + d"
    by (simp add: ms_per_day_def)
  moreover have "z div ms_per_day = 0"
    using assms by (simp add: div_pos_pos_trivial)
  ultimately show ?thesis
    by (simp add: local_day_def add.commute)
qed

text \<open>
  On such a device the test of the loop is the test of the specification; this is where
  the count is the number of upcoming records.
\<close>

lemma code_upcoming_east_of_utc:
  assumes "0 \<le> tz e" "tz e < ms_per_day"
  shows "code_upcoming e r = spec_upcoming e r"
proof -
  let ?v = "get_prop r ''appointmentDate''"
  have "(case new_Date e ?v of Inl err \<Rightarrow> False
         | Inr d \<Rightarrow> date_ge d (setHours0 (tz e) (now e))) = dated_today_or_later e r"
  proof (cases "case ?v of Str s \<Rightarrow> iso_date_days s | _ \<Rightarrow> None")
    case None
    then have "record_day e ?v =
        (case new_Date e ?v of Inr (Some t) \<Rightarrow> Some (local_day (tz e) t) | _ \<Rightarrow> None)"
      by (simp add: record_day_def)
    then show ?thesis
      by (auto simp: dated_today_or_later_def date_ge_def le_setHours0_iff
               split: sum.splits option.splits)
  next
    case (Some d)
    then obtain s where s: "?v = Str s" "iso_date_days s = Some d"
      by (auto split: jsval.splits)
    then have "new_Date e ?v = Inr (Some (d * ms_per_day))"
      by (simp add: new_Date_def Date_of_string_def)
    moreover from s have "record_day e ?v = Some d"
      by (simp add: record_day_def)
    ultimately show ?thesis
      using local_day_of_utc_midnight [OF assms, of d]
      by (simp add: dated_today_or_later_def date_ge_def le_setHours0_iff)
  qed
  then show ?thesis
    by (auto simp: code_upcoming_def spec_upcoming_def)
qed

lemma upcoming_count_east_of_utc:
  assumes "0 \<le> tz e" "tz e < ms_per_day"
    and "filterAppointmentsForPatientAndCountUpcoming e apps pid = Inr r"
  shows "upcomingCount r = length (filter (spec_upcoming e) (patientAppointments r))"
proof -
  have "code_upcoming e = spec_upcoming e"
    using code_upcoming_east_of_utc [OF assms(1,2)] by (rule ext)
  with upcomingCount_of_result [OF assms(3)] show ?thesis by simp
qed

subsection \<open>The examples\<close>

lemma iso_date_days_example:
  "iso_date_days ''2025-02-10'' = Some 20129"
  by (simp add: iso_date_days_def is_digit_def digits_value_def days_in_month_def
      leap_year_def days_from_civil_def)

lemma new_Date_example:
  "new_Date e (Str ''2025-02-10'') = Inr (Some 1739145600000)"
  by (simp add: new_Date_def Date_of_string_def iso_date_days_example ms_per_day_def)

lemma owner_example:
  "getPatientIdFromAppointment (example_record i p s) = Inr p"
  by (simp add: getPatientIdFromAppointment_def example_record_def field_def opt_prop_def
      coalesce_def)

lemma example_record_returns:
  "\<not> record_raises e pid (example_record i p s)"
  using new_Date_example [of e]
  by (simp add: record_raises_def owner_example) (simp add: example_record_def field_def)

lemma code_upcoming_example:
  "code_upcoming example_env (example_record i p s) = (s = ''confirmed'' \<or> s = ''pending'')"
  using new_Date_example [of example_env]
  by (simp add: code_upcoming_def example_record_def field_def example_env_def date_ge_def
      setHours0_def ms_per_day_def)

lemma code_upcoming_example_west:
  "\<not> code_upcoming example_env_west (example_record i p s)"
  using new_Date_example [of example_env_west]
  by (simp add: code_upcoming_def example_record_def field_def example_env_west_def date_ge_def
      setHours0_def ms_per_day_def)

lemma spec_upcoming_example_west:
  "spec_upcoming example_env_west (example_record i p s) = (s = ''pending'' \<or> s = ''confirmed'')"
  by (simp add: spec_upcoming_def dated_today_or_later_def record_day_def example_record_def
      field_def iso_date_days_example example_env_west_def local_day_def ms_per_day_def)

subsection \<open>C1: the empty patient id\<close>

text \<open>
  C1. With the empty string as patient id the filter returns the empty list and the count
  0, whatever the appointment list holds; so the result is the same for any two lists.
\<close>

theorem empty_patient_id_no_leak:
  "filterAppointmentsForPatientAndCountUpcoming e apps '''' =
     Inr \<lparr>patientAppointments = [], upcomingCount = 0\<rparr> \<and>
   filterAppointmentsForPatientAndCountUpcoming e apps '''' =
     filterAppointmentsForPatientAndCountUpcoming e apps' ''''"
  by (simp add: filter_result_empty)

subsection \<open>C2: the returned appointments\<close>

lemma opt_prop_primitive:
  "primitive v \<Longrightarrow> opt_prop v k = Undefined"
  by (cases v) (simp_all add: opt_prop_def primitive_def)

lemma getPatientId_first_non_nullish:
  "\<not> nullish r \<Longrightarrow>
   getPatientIdFromAppointment r =
     (case first_non_nullish (owner_candidates r) of Some v \<Rightarrow> String_js v | None \<Rightarrow> Inr '''')"
  by (simp add: getPatientIdFromAppointment_def first_non_nullish_def owner_candidates_def
      coalesce_def)

lemma getPatientId_spec_agree:
  assumes "well_shaped r"
  shows "getPatientIdFromAppointment r = resolveAppointmentOwnerId_spec r"
  using assms
  by (auto simp: well_shaped_def owner_shaped_def getPatientIdFromAppointment_def
      resolveAppointmentOwnerId_spec_def first_non_nullish_def spec_candidates_def coalesce_def
      opt_prop_primitive)

lemma owner_populated_without_id:
  "getPatientIdFromAppointment example_populated_without_id = Inr ''[object Object]''"
  by (simp add: getPatientIdFromAppointment_def example_populated_without_id_def coalesce_def
      opt_prop_def field_def has_own_def)

lemma spec_owner_populated_without_id:
  "resolveAppointmentOwnerId_spec example_populated_without_id = Inr ''p3''"
  by (simp add: resolveAppointmentOwnerId_spec_def example_populated_without_id_def
      first_non_nullish_def spec_candidates_def opt_prop_def field_def primitive_def)

text \<open>
  C2, as stated, fails: the owner id that selects the records is the one the code
  resolves, not the one of the resolution function of the specification. A record whose
  populated \<open>patient\<close> has no \<open>_id\<close> and whose \<open>patientId\<close> is \<open>p3\<close> is not returned
  for the patient id \<open>p3\<close>, although its owner id by that function is \<open>p3\<close>.
\<close>

theorem returned_by_code_owner_counterexample:
  "filterAppointmentsForPatientAndCountUpcoming example_env [example_populated_without_id] ''p3'' =
     Inr \<lparr>patientAppointments = [], upcomingCount = 0\<rparr> \<and>
   filter (\<lambda>a. resolveAppointmentOwnerId_spec a = Inr ''p3'') [example_populated_without_id] =
     [example_populated_without_id]"
proof -
  have "\<forall>a \<in> set [example_populated_without_id]. \<not> record_raises example_env ''p3'' a"
    by (simp add: record_raises_def owner_populated_without_id)
  then have "filterAppointmentsForPatientAndCountUpcoming example_env
       [example_populated_without_id] ''p3'' =
     Inr \<lparr>patientAppointments = [], upcomingCount = 0\<rparr>"
    by (subst filter_eval) (simp_all add: owner_populated_without_id)
  then show ?thesis
    by (simp add: spec_owner_populated_without_id)
qed

text \<open>
  C2, amended. For a non-empty patient id the function is one pass of the loop body over
  the input, from left to right, ending at the first exception. When it returns, the
  returned appointments are exactly the records of the input whose owner id, as
  \<open>getPatientIdFromAppointment\<close> resolves it, equals the patient id, in their original
  relative order; it returns whenever no record throws. On a list of well-shaped records
  these are exactly the records whose owner id by the resolution function of the
  specification equals the patient id.
\<close>

theorem patient_appointments_exact:
  "patientId \<noteq> '''' \<Longrightarrow>
   filterAppointmentsForPatientAndCountUpcoming e apps patientId =
     loop_result (fold_result (loop_body e patientId (setHours0 (tz e) (now e))) apps ([], 0)) \<and>
   (\<forall>r. filterAppointmentsForPatientAndCountUpcoming e apps patientId = Inr r \<longrightarrow>
      patientAppointments r = filter (\<lambda>a. getPatientIdFromAppointment a = Inr patientId) apps \<and>
      subseq (patientAppointments r) apps) \<and>
   ((\<forall>a \<in> set apps. \<not> record_raises e patientId a) \<longrightarrow>
      (\<exists>r. filterAppointmentsForPatientAndCountUpcoming e apps patientId = Inr r)) \<and>
   ((\<forall>a \<in> set apps. well_shaped a) \<longrightarrow>
      filter (\<lambda>a. getPatientIdFromAppointment a = Inr patientId) apps =
      filter (\<lambda>a. resolveAppointmentOwnerId_spec a = Inr patientId) apps)"
proof (intro conjI allI impI)
  assume p: "patientId \<noteq> ''''"
  show "filterAppointmentsForPatientAndCountUpcoming e apps patientId =
     loop_result (fold_result (loop_body e patientId (setHours0 (tz e) (now e))) apps ([], 0))"
    using p by (rule filter_as_fold)
  show "\<exists>r. filterAppointmentsForPatientAndCountUpcoming e apps patientId = Inr r"
    if "\<forall>a \<in> set apps. \<not> record_raises e patientId a"
    using that by (rule filter_returns)
  show "filter (\<lambda>a. getPatientIdFromAppointment a = Inr patientId) apps =
      filter (\<lambda>a. resolveAppointmentOwnerId_spec a = Inr patientId) apps"
    if "\<forall>a \<in> set apps. well_shaped a"
    using that by (intro filter_cong refl) (simp add: getPatientId_spec_agree)
  fix r
  assume r: "filterAppointmentsForPatientAndCountUpcoming e apps patientId = Inr r"
  from filter_Inr(1) [OF r] p
  show "patientAppointments r = filter (\<lambda>a. getPatientIdFromAppointment a = Inr patientId) apps"
    by simp
  then show "subseq (patientAppointments r) apps"
    by simp
qed

theorem patient_appointments_exact_witness:
  "''p1'' \<noteq> '''' \<and>
   list_all (\<lambda>a. \<not> record_raises example_env ''p1'' a) example_list \<and>
   list_all well_shaped example_list \<and>
   (\<exists>r. filterAppointmentsForPatientAndCountUpcoming example_env example_list ''p1'' = Inr r \<and>
        patientAppointments r =
          [example_record ''1'' ''p1'' ''confirmed'', example_record ''3'' ''p1'' ''cancelled'',
           example_record ''4'' ''p1'' ''pending''] \<and>
        patientAppointments r =
          filter (\<lambda>a. resolveAppointmentOwnerId_spec a = Inr ''p1'') example_list)"
proof -
  have p: "''p1'' \<noteq> ''''" by simp
  have n: "\<forall>a \<in> set example_list. \<not> record_raises example_env ''p1'' a"
    by (simp add: example_list_def example_record_returns)
  have w: "\<forall>a \<in> set example_list. well_shaped a"
    by (simp add: example_list_def example_record_def well_shaped_def owner_shaped_def
        primitive_def field_def)
  note t = patient_appointments_exact [OF p, of example_env example_list]
  from t n obtain r where
    r: "filterAppointmentsForPatientAndCountUpcoming example_env example_list ''p1'' = Inr r"
    by blast
  from t r have a: "patientAppointments r =
      filter (\<lambda>a. getPatientIdFromAppointment a = Inr ''p1'') example_list"
    by blast
  from t w have s: "filter (\<lambda>a. getPatientIdFromAppointment a = Inr ''p1'') example_list =
      filter (\<lambda>a. resolveAppointmentOwnerId_spec a = Inr ''p1'') example_list"
    by blast
  have c: "filter (\<lambda>a. getPatientIdFromAppointment a = Inr ''p1'') example_list =
      [example_record ''1'' ''p1'' ''confirmed'', example_record ''3'' ''p1'' ''cancelled'',
       example_record ''4'' ''p1'' ''pending'']"
    by (simp add: example_list_def owner_example)
  from p n w r a s c show ?thesis by (simp add: list_all_iff)
qed

subsection \<open>C3: the upcoming count\<close>

text \<open>
  C3 holds on a device at or east of UTC (lemma \<open>upcoming_count_east_of_utc\<close>) and fails
  west of it. The loop compares the instant \<open>new Date(appointmentDate)\<close>, which for a
  date-only string is the UTC midnight of that day, with today's local midnight. Five
  hours west of UTC, at 10:00 local time, the three records of the patient in the list
  of the repository's test are dated today and two of them are pending or confirmed;
  the code counts none of them as upcoming.
\<close>

theorem upcoming_count_west_of_utc:
  "filterAppointmentsForPatientAndCountUpcoming example_env_west example_list ''p1'' =
     Inr \<lparr>patientAppointments =
            [example_record ''1'' ''p1'' ''confirmed'', example_record ''3'' ''p1'' ''cancelled'',
             example_record ''4'' ''p1'' ''pending''],
          upcomingCount = 0\<rparr> \<and>
   length (filter (\<lambda>a. getPatientIdFromAppointment a = Inr ''p1'' \<and>
                        spec_upcoming example_env_west a) example_list) = 2"
proof -
  have n: "\<forall>a \<in> set example_list. \<not> record_raises example_env_west ''p1'' a"
    by (simp add: example_list_def example_record_returns)
  have "filterAppointmentsForPatientAndCountUpcoming example_env_west example_list ''p1'' =
     Inr \<lparr>patientAppointments =
            [example_record ''1'' ''p1'' ''confirmed'', example_record ''3'' ''p1'' ''cancelled'',
             example_record ''4'' ''p1'' ''pending''],
          upcomingCount = 0\<rparr>"
    by (subst filter_eval [OF _ n])
       (simp_all add: example_list_def owner_example code_upcoming_example_west)
  then show ?thesis
    by (simp add: example_list_def owner_example spec_upcoming_example_west)
qed

subsection \<open>C9: the count and the list\<close>

text \<open>
  C9. For every appointment list and every patient id, the upcoming count of the result is
  at most the length of the returned list; and there is a result whenever no record of
  the list throws.
\<close>

theorem upcoming_count_le_length:
  "(\<forall>r. filterAppointmentsForPatientAndCountUpcoming e apps patientId = Inr r \<longrightarrow>
      upcomingCount r \<le> length (patientAppointments r)) \<and>
   ((\<forall>a \<in> set apps. \<not> record_raises e patientId a) \<longrightarrow>
      (\<exists>r. filterAppointmentsForPatientAndCountUpcoming e apps patientId = Inr r))"
  using filter_returns [of apps e patientId]
  by (auto simp: upcomingCount_of_result)

theorem upcoming_count_le_length_witness:
  "list_all (\<lambda>a. \<not> record_raises example_env ''p1'' a) example_list \<and>
   (\<exists>r. filterAppointmentsForPatientAndCountUpcoming example_env example_list ''p1'' = Inr r \<and>
        upcomingCount r \<le> length (patientAppointments r))"
proof -
  have n: "\<forall>a \<in> set example_list. \<not> record_raises example_env ''p1'' a"
    by (simp add: example_list_def example_record_returns)
  with upcoming_count_le_length [of example_env example_list "''p1''"]
  have "\<exists>r. filterAppointmentsForPatientAndCountUpcoming example_env example_list ''p1'' = Inr r \<and>
      upcomingCount r \<le> length (patientAppointments r)"
    by blast
  with n show ?thesis by (simp add: list_all_iff)
qed

subsection \<open>C4: the owner of an appointment\<close>

lemma sequence_result_Inl:
  "sequence_result rs = Inl err \<Longrightarrow> Inl err \<in> set rs"
  by (induction rs) (auto split: sum.splits)

text \<open>\<open>String\<close> throws nothing but a TypeError, and only on an object or an array.\<close>

lemma String_js_Inl:
  "String_js v = Inl err \<Longrightarrow> err = TypeError \<and> \<not> primitive v"
proof (induction v arbitrary: err rule: String_js.induct)
  case (6 vs)
  from "6.prems" have
    "sequence_result (map (\<lambda>v. if nullish v then Inr [] else String_js v) vs) = Inl err"
    by (auto split: sum.splits)
  then have "Inl err \<in> set (map (\<lambda>v. if nullish v then Inr [] else String_js v) vs)"
    by (rule sequence_result_Inl)
  then obtain v where "v \<in> set vs" "\<not> nullish v" "String_js v = Inl err"
    by (auto split: if_splits)
  with "6.IH" show ?case by (auto simp: primitive_def)
qed (auto simp: primitive_def split: if_splits)

lemma owner_uncoercible:
  "getPatientIdFromAppointment example_uncoercible = Inl TypeError"
  by (simp add: getPatientIdFromAppointment_def example_uncoercible_def coalesce_def
      opt_prop_def field_def has_own_def)

text \<open>
  C4, as stated, fails twice. The owner reference itself is a candidate whenever it is
  not nullish, not only when it is a primitive: a populated \<open>patient\<close> object without
  \<open>_id\<close> is returned as \<open>[object Object]\<close> and the \<open>patientId\<close> next in the order
  is never reached, where the order of the specification resolves to it. And there are
  malformed records that raise an error: one whose \<open>patient\<close> object has a property
  named \<open>toString\<close>, and an element that is \<open>null\<close>.
\<close>

theorem owner_object_without_id_counterexample:
  "getPatientIdFromAppointment example_populated_without_id = Inr ''[object Object]'' \<and>
   resolveAppointmentOwnerId_spec example_populated_without_id = Inr ''p3'' \<and>
   getPatientIdFromAppointment example_uncoercible = Inl TypeError \<and>
   getPatientIdFromAppointment Null = Inl TypeError"
  by (simp add: owner_populated_without_id spec_owner_populated_without_id owner_uncoercible)
     (simp add: getPatientIdFromAppointment_def)

text \<open>
  C4, amended. On a record that is not \<open>null\<close> or \<open>undefined\<close> the function returns
  the first value that is not nullish, converted by \<open>String\<close>, among \<open>patient?._id\<close>,
  \<open>patient\<close>, \<open>patientId\<close>, \<open>user?._id\<close>, \<open>user\<close>, \<open>userId\<close> in this order, and
  the empty string if there is none; an object chosen so gives \<open>[object Object]\<close> unless
  it has a property named \<open>toString\<close>. The function throws on a record that is
  \<open>null\<close> or \<open>undefined\<close>; whenever it throws, the error is a TypeError and the record
  is nullish or the chosen value is an object or array that \<open>String\<close> cannot convert.
  It agrees with the order of the specification on every well-shaped record. A record
  carrying only \<open>userId: 'u1'\<close> resolves to \<open>u1\<close>.
\<close>

theorem owner_resolution_order:
  "(nullish r \<longrightarrow> getPatientIdFromAppointment r = Inl TypeError) \<and>
   (\<not> nullish r \<longrightarrow>
      getPatientIdFromAppointment r =
        (case first_non_nullish (owner_candidates r) of
           Some v \<Rightarrow> String_js v
         | None \<Rightarrow> Inr '''')) \<and>
   (\<not> nullish r \<and> first_non_nullish (owner_candidates r) = Some (Obj ps) \<longrightarrow>
      getPatientIdFromAppointment r =
        (if has_own ps ''toString'' then Inl TypeError else Inr ''[object Object]'')) \<and>
   (getPatientIdFromAppointment r = Inl err \<longrightarrow>
      err = TypeError \<and>
      (nullish r \<or>
       (\<exists>v. first_non_nullish (owner_candidates r) = Some v \<and> \<not> primitive v \<and>
            String_js v = Inl TypeError))) \<and>
   (well_shaped r \<longrightarrow> getPatientIdFromAppointment r = resolveAppointmentOwnerId_spec r) \<and>
   getPatientIdFromAppointment (Obj [(''userId'', Str ''u1'')]) = Inr ''u1''"
proof (intro conjI impI)
  show "getPatientIdFromAppointment r = Inl TypeError" if "nullish r"
    using that by (simp add: getPatientIdFromAppointment_def)
  show c: "getPatientIdFromAppointment r =
      (case first_non_nullish (owner_candidates r) of Some v \<Rightarrow> String_js v | None \<Rightarrow> Inr '''')"
    if "\<not> nullish r"
    using that by (rule getPatientId_first_non_nullish)
  show "getPatientIdFromAppointment r =
      (if has_own ps ''toString'' then Inl TypeError else Inr ''[object Object]'')"
    if "\<not> nullish r \<and> first_non_nullish (owner_candidates r) = Some (Obj ps)"
    using that by (simp add: getPatientId_first_non_nullish)
  show "getPatientIdFromAppointment r = resolveAppointmentOwnerId_spec r" if "well_shaped r"
    using that by (rule getPatientId_spec_agree)
  show "getPatientIdFromAppointment (Obj [(''userId'', Str ''u1'')]) = Inr ''u1''"
    by (simp add: getPatientIdFromAppointment_def coalesce_def opt_prop_def field_def)
  assume i: "getPatientIdFromAppointment r = Inl err"
  show "err = TypeError"
  proof (cases "nullish r")
    case True
    with i show ?thesis by (simp add: getPatientIdFromAppointment_def)
  next
    case False
    with i c obtain v where "String_js v = Inl err"
      by (auto split: option.splits)
    then show ?thesis by (simp add: String_js_Inl)
  qed
  show "nullish r \<or>
       (\<exists>v. first_non_nullish (owner_candidates r) = Some v \<and> \<not> primitive v \<and>
            String_js v = Inl TypeError)"
  proof (cases "nullish r")
    case True
    then show ?thesis by simp
  next
    case False
    with i c obtain v where v: "first_non_nullish (owner_candidates r) = Some v"
      "String_js v = Inl err"
      by (auto split: option.splits)
    with String_js_Inl [OF v(2)] show ?thesis by auto
  qed
qed

theorem owner_resolution_order_witness:
  "\<not> nullish example_populated \<and> well_shaped example_populated \<and>
   getPatientIdFromAppointment example_populated = Inr ''p1'' \<and>
   resolveAppointmentOwnerId_spec example_populated = Inr ''p1'' \<and>
   nullish Null \<and> getPatientIdFromAppointment Null = Inl TypeError \<and>
   \<not> nullish example_populated_without_id \<and>
   first_non_nullish (owner_candidates example_populated_without_id) =
     Some (Obj [(''name'', Str ''Ann'')]) \<and>
   getPatientIdFromAppointment example_populated_without_id = Inr ''[object Object]'' \<and>
   getPatientIdFromAppointment example_uncoercible = Inl TypeError \<and>
   (\<exists>v. first_non_nullish (owner_candidates example_uncoercible) = Some v \<and> \<not> primitive v \<and>
        String_js v = Inl TypeError)"
proof -
  have n: "\<not> nullish example_populated" "\<not> nullish example_populated_without_id"
    by (simp_all add: example_populated_def example_populated_without_id_def)
  have w: "well_shaped example_populated"
    by (simp add: well_shaped_def owner_shaped_def example_populated_def field_def opt_prop_def
        primitive_def)
  have c: "first_non_nullish (owner_candidates example_populated) = Some (Str ''p1'')"
    by (simp add: example_populated_def first_non_nullish_def owner_candidates_def field_def
        opt_prop_def)
  have d: "first_non_nullish (owner_candidates example_populated_without_id) =
      Some (Obj [(''name'', Str ''Ann'')])"
    by (simp add: example_populated_without_id_def first_non_nullish_def owner_candidates_def
        field_def opt_prop_def)
  note t = owner_resolution_order [of example_populated]
  from t n c have a: "getPatientIdFromAppointment example_populated = Inr ''p1''"
    by simp
  from t w have b: "getPatientIdFromAppointment example_populated =
      resolveAppointmentOwnerId_spec example_populated"
    by blast
  have s: "resolveAppointmentOwnerId_spec example_populated = Inr ''p1''"
    by (rule trans [OF b [symmetric] a])
  from owner_resolution_order [of Null] have u: "getPatientIdFromAppointment Null = Inl TypeError"
    by simp
  from owner_resolution_order [of example_populated_without_id "[(''name'', Str ''Ann'')]"] n d
  have o: "getPatientIdFromAppointment example_populated_without_id = Inr ''[object Object]''"
    by (simp add: has_own_def)
  have x: "getPatientIdFromAppointment example_uncoercible = Inl TypeError"
    "\<not> nullish example_uncoercible"
    by (simp_all add: owner_uncoercible) (simp add: example_uncoercible_def)
  with owner_resolution_order [of example_uncoercible _ TypeError]
  have y: "\<exists>v. first_non_nullish (owner_candidates example_uncoercible) = Some v \<and>
      \<not> primitive v \<and> String_js v = Inl TypeError"
    by blast
  from n w a s u d o x y show ?thesis by simp
qed

subsection \<open>C5: the patient id of the load cycle\<close>

text \<open>
  C5 holds of \<open>getCurrentPatientId\<close> but not of the load cycle: the effect of
  \<open>usePatientDashboardData\<close> reads \<open>id\<close> before \<open>_id\<close>. For a user whose two ids
  differ the filter is given the authentication id \<open>b\<close>, where
  \<open>getCurrentPatientId\<close> (and the claim) gives the storage id \<open>a\<close>.
\<close>

theorem load_cycle_patient_id_prefers_id:
  "effect_currentPatientId (hook_userId example_user_two_ids) = Inr ''b'' \<and>
   getCurrentPatientId example_user_two_ids = Inr ''a''"
  by (simp add: effect_currentPatientId_def hook_userId_def getCurrentPatientId_def
      example_user_two_ids_def coalesce_def opt_prop_def field_def)

subsection \<open>C6: failures of the load cycle\<close>

lemma example_user_id:
  "effect_currentPatientId (hook_userId example_user) = Inr ''patient-1''"
  by (simp add: effect_currentPatientId_def hook_userId_def example_user_def coalesce_def
      opt_prop_def field_def)

lemma effect_with_id:
  assumes "effect_currentPatientId (hook_userId user) = Inr pid" "pid \<noteq> []"
  shows "dashboard_effect e user cancelled oc st =
     Inr (fetchDashboardData e pid cancelled oc (st\<lparr>loading := True, error := None\<rparr>))"
  using assms by (simp add: dashboard_effect_def)

lemma fetch_stats_rejected:
  "fetchDashboardData e pid False (oc\<lparr>getStats := Inl err\<rparr>) st =
     st\<lparr>error := Some err, loading := False\<rparr>"
  by (simp add: fetchDashboardData_def)

lemma fetch_filter_throws:
  assumes "getStats oc = Inr s"
    "filterAppointmentsForPatientAndCountUpcoming e
       (or_empty (catch_with (appointments_getAll oc) (Some []))) pid = Inl err"
  shows "fetchDashboardData e pid False oc st = st\<lparr>error := Some err, loading := False\<rparr>"
  using assms by (simp add: fetchDashboardData_def Let_def)

lemma fetch_returns:
  assumes "getStats oc = Inr s"
    "filterAppointmentsForPatientAndCountUpcoming e
       (or_empty (catch_with (appointments_getAll oc) (Some []))) pid = Inr r"
  shows "fetchDashboardData e pid False oc st =
     st\<lparr>stats := Some (stats_object s (length (patientAppointments r)) (upcomingCount r)),
        appointments := patientAppointments r,
        analyses := or_empty (catch_with (ai_getAll oc) (Some [])),
        trends := or_empty (catch_with (getTrends oc) (Some [])),
        loading := False\<rparr>"
  using assms by (simp add: fetchDashboardData_def Let_def)

lemma filter_of_no_appointments:
  "filterAppointmentsForPatientAndCountUpcoming e [] pid =
     Inr \<lparr>patientAppointments = [], upcomingCount = 0\<rparr>"
  by (simp add: filterAppointmentsForPatientAndCountUpcoming_def filter_loop.simps)

text \<open>
  C6, as stated, fails for the appointments request: its rejection is caught beside the
  request and replaced by an empty list, so the cycle ends with no error, an empty list of
  appointments, and the overview rather than the alert.
\<close>

theorem appointments_failure_not_surfaced:
  "dashboard_effect example_env example_user False
     (example_outcomes\<lparr>appointments_getAll := Inl (Error ''Network Error'')\<rparr>)
     initial_dashboard_state =
   Inr \<lparr>stats = Some (stats_object (Some [(''myAnalyses'', Num 0), (''myReports'', Num 0)]) 0 0),
        appointments = [], analyses = [], trends = [], loading = False, error = None\<rparr> \<and>
   PatientDashboard_view example_env example_user
     \<lparr>stats = Some (stats_object (Some [(''myAnalyses'', Num 0), (''myReports'', Num 0)]) 0 0),
      appointments = [], analyses = [], trends = [], loading = False, error = None\<rparr> =
   Inr Overview_view"
proof
  show "dashboard_effect example_env example_user False
     (example_outcomes\<lparr>appointments_getAll := Inl (Error ''Network Error'')\<rparr>)
     initial_dashboard_state =
   Inr \<lparr>stats = Some (stats_object (Some [(''myAnalyses'', Num 0), (''myReports'', Num 0)]) 0 0),
        appointments = [], analyses = [], trends = [], loading = False, error = None\<rparr>"
    by (simp add: effect_with_id [OF example_user_id] fetchDashboardData_def
        example_outcomes_def initial_dashboard_state_def catch_with_def or_empty_def
        filter_of_no_appointments)
  show "PatientDashboard_view example_env example_user
     \<lparr>stats = Some (stats_object (Some [(''myAnalyses'', Num 0), (''myReports'', Num 0)]) 0 0),
      appointments = [], analyses = [], trends = [], loading = False, error = None\<rparr> =
   Inr Overview_view"
    by (simp add: PatientDashboard_view_def trendsChartData_def overview_def stat_value_def
        stats_object_def or_empty_def example_user_def opt_prop_def field_def coalesce_def)
qed

text \<open>
  C6, amended. In a load cycle that is not cancelled, for a user with an id: a rejected
  stats request, and likewise an exception thrown while the responses are processed,
  ends the cycle with that very error kept in the state, and the dashboard then shows the
  alert with it; a rejected appointments request ends the cycle with no error and an empty
  list; when the processing returns, a rejected analyses or trends request leaves an
  empty collection and no error, and with no error in the state the dashboard never shows
  the alert. In the booking view a rejected appointments request sets the empty list and
  ends loading, and a rejected doctors request changes nothing.
\<close>

theorem load_cycle_failures:
  assumes "effect_currentPatientId (hook_userId user) = Inr pid" "pid \<noteq> ''''"
  shows
   "dashboard_effect e user False (oc\<lparr>getStats := Inl rejected\<rparr>) st =
      Inr (st\<lparr>loading := False, error := Some rejected\<rparr>) \<and>
    (filterAppointmentsForPatientAndCountUpcoming e bad pid = Inl thrown \<longrightarrow>
       dashboard_effect e user False
         (oc\<lparr>getStats := Inr s, appointments_getAll := Inr (Some bad)\<rparr>) st =
       Inr (st\<lparr>loading := False, error := Some thrown\<rparr>)) \<and>
    (trendsChartData e (trends st) = Inr chart \<longrightarrow>
       PatientDashboard_view e user (st\<lparr>loading := False, error := Some err\<rparr>) =
       Inr (Failed_view err)) \<and>
    dashboard_effect e user False (oc\<lparr>getStats := Inr s, appointments_getAll := Inl x\<rparr>) st =
      Inr (st\<lparr>stats := Some (stats_object s 0 0), appointments := [],
              analyses := or_empty (catch_with (ai_getAll oc) (Some [])),
              trends := or_empty (catch_with (getTrends oc) (Some [])),
              loading := False, error := None\<rparr>) \<and>
    (filterAppointmentsForPatientAndCountUpcoming e apps pid = Inr r \<longrightarrow>
       dashboard_effect e user False
         (oc\<lparr>getStats := Inr s, appointments_getAll := Inr (Some apps), ai_getAll := Inl x\<rparr>) st =
       Inr (st\<lparr>stats := Some (stats_object s (length (patientAppointments r)) (upcomingCount r)),
               appointments := patientAppointments r, analyses := [],
               trends := or_empty (catch_with (getTrends oc) (Some [])),
               loading := False, error := None\<rparr>) \<and>
       dashboard_effect e user False
         (oc\<lparr>getStats := Inr s, appointments_getAll := Inr (Some apps), getTrends := Inl x\<rparr>) st =
       Inr (st\<lparr>stats := Some (stats_object s (length (patientAppointments r)) (upcomingCount r)),
               appointments := patientAppointments r,
               analyses := or_empty (catch_with (ai_getAll oc) (Some [])), trends := [],
               loading := False, error := None\<rparr>)) \<and>
    PatientDashboard_view e user (st\<lparr>loading := False, error := None\<rparr>) \<noteq>
      Inr (Failed_view err) \<and>
    loadAppointments False (Inl x) b = b\<lparr>bookedAppointments := [], bookingLoading := False\<rparr> \<and>
    loadDoctors c (Inl x) b = b"
proof (intro conjI impI)
  note eff = effect_with_id [OF assms]
  show "dashboard_effect e user False (oc\<lparr>getStats := Inl rejected\<rparr>) st =
      Inr (st\<lparr>loading := False, error := Some rejected\<rparr>)"
    by (simp add: eff fetch_stats_rejected)
  show "dashboard_effect e user False
         (oc\<lparr>getStats := Inr s, appointments_getAll := Inr (Some bad)\<rparr>) st =
       Inr (st\<lparr>loading := False, error := Some thrown\<rparr>)"
    if "filterAppointmentsForPatientAndCountUpcoming e bad pid = Inl thrown"
    using that
    by (simp add: eff fetch_filter_throws [where s = s and err = thrown] catch_with_def
        or_empty_def)
  show "PatientDashboard_view e user (st\<lparr>loading := False, error := Some err\<rparr>) =
       Inr (Failed_view err)"
    if "trendsChartData e (trends st) = Inr chart"
    using that by (simp add: PatientDashboard_view_def)
  show "dashboard_effect e user False (oc\<lparr>getStats := Inr s, appointments_getAll := Inl x\<rparr>) st =
      Inr (st\<lparr>stats := Some (stats_object s 0 0), appointments := [],
              analyses := or_empty (catch_with (ai_getAll oc) (Some [])),
              trends := or_empty (catch_with (getTrends oc) (Some [])),
              loading := False, error := None\<rparr>)"
    by (simp add: eff catch_with_def or_empty_def
        fetch_returns [where s = s and r = "\<lparr>patientAppointments = [], upcomingCount = 0\<rparr>"]
        filter_of_no_appointments)
  show "PatientDashboard_view e user (st\<lparr>loading := False, error := None\<rparr>) \<noteq>
      Inr (Failed_view err)"
    by (simp add: PatientDashboard_view_def split: sum.splits)
  show "loadAppointments False (Inl x) b = b\<lparr>bookedAppointments := [], bookingLoading := False\<rparr>"
    by (simp add: loadAppointments_def)
  show "loadDoctors c (Inl x) b = b"
    by (simp add: loadDoctors_def)
  assume r: "filterAppointmentsForPatientAndCountUpcoming e apps pid = Inr r"
  show "dashboard_effect e user False
         (oc\<lparr>getStats := Inr s, appointments_getAll := Inr (Some apps), ai_getAll := Inl x\<rparr>) st =
       Inr (st\<lparr>stats := Some (stats_object s (length (patientAppointments r)) (upcomingCount r)),
               appointments := patientAppointments r, analyses := [],
               trends := or_empty (catch_with (getTrends oc) (Some [])),
               loading := False, error := None\<rparr>)"
    using r
    by (simp add: eff catch_with_def or_empty_def fetch_returns [where s = s and r = r])
  show "dashboard_effect e user False
         (oc\<lparr>getStats := Inr s, appointments_getAll := Inr (Some apps), getTrends := Inl x\<rparr>) st =
       Inr (st\<lparr>stats := Some (stats_object s (length (patientAppointments r)) (upcomingCount r)),
               appointments := patientAppointments r,
               analyses := or_empty (catch_with (ai_getAll oc) (Some [])), trends := [],
               loading := False, error := None\<rparr>)"
    using r
    by (simp add: eff catch_with_def or_empty_def fetch_returns [where s = s and r = r])
qed

theorem load_cycle_failures_witness:
  "effect_currentPatientId (hook_userId example_user) = Inr ''patient-1'' \<and>
   ''patient-1'' \<noteq> '''' \<and>
   filterAppointmentsForPatientAndCountUpcoming example_env [Null] ''patient-1'' = Inl TypeError \<and>
   trendsChartData example_env (trends initial_dashboard_state) = Inr [] \<and>
   filterAppointmentsForPatientAndCountUpcoming example_env
     [example_record ''a1'' ''patient-1'' ''confirmed''] ''patient-1'' =
     Inr \<lparr>patientAppointments = [example_record ''a1'' ''patient-1'' ''confirmed''],
          upcomingCount = 1\<rparr> \<and>
   dashboard_effect example_env example_user False
     (example_outcomes\<lparr>getStats := Inl (Error ''Request failed'')\<rparr>) initial_dashboard_state =
     Inr (initial_dashboard_state\<lparr>loading := False, error := Some (Error ''Request failed'')\<rparr>) \<and>
   PatientDashboard_view example_env example_user
     (initial_dashboard_state\<lparr>loading := False, error := Some (Error ''Request failed'')\<rparr>) =
     Inr (Failed_view (Error ''Request failed'')) \<and>
   dashboard_effect example_env example_user False
     (example_outcomes\<lparr>getStats := Inr None, appointments_getAll := Inr (Some [Null])\<rparr>)
     initial_dashboard_state =
     Inr (initial_dashboard_state\<lparr>loading := False, error := Some TypeError\<rparr>) \<and>
   dashboard_effect example_env example_user False
     (example_outcomes\<lparr>getStats := Inr None,
        appointments_getAll := Inr (Some [example_record ''a1'' ''patient-1'' ''confirmed'']),
        getTrends := Inl (Error ''Request failed'')\<rparr>)
     initial_dashboard_state =
     Inr \<lparr>stats = Some (stats_object None 1 1),
          appointments = [example_record ''a1'' ''patient-1'' ''confirmed''],
          analyses = [], trends = [], loading = False, error = None\<rparr>"
proof -
  have i: "effect_currentPatientId (hook_userId example_user) = Inr ''patient-1''"
    by (rule example_user_id)
  have p: "''patient-1'' \<noteq> ''''" by simp
  have b: "filterAppointmentsForPatientAndCountUpcoming example_env [Null] ''patient-1'' =
      Inl TypeError"
    by (simp add: filterAppointmentsForPatientAndCountUpcoming_def filter_loop.simps
        loop_body_def getPatientIdFromAppointment_def)
  have c: "trendsChartData example_env (trends initial_dashboard_state) = Inr []"
    by (simp add: trendsChartData_def initial_dashboard_state_def)
  have n: "\<forall>a \<in> set [example_record ''a1'' ''patient-1'' ''confirmed''].
      \<not> record_raises example_env ''patient-1'' a"
    by (simp add: example_record_returns)
  have r: "filterAppointmentsForPatientAndCountUpcoming example_env
     [example_record ''a1'' ''patient-1'' ''confirmed''] ''patient-1'' =
     Inr \<lparr>patientAppointments = [example_record ''a1'' ''patient-1'' ''confirmed''],
          upcomingCount = 1\<rparr>"
    by (subst filter_eval [OF _ n]) (simp_all add: owner_example code_upcoming_example)
  note t = load_cycle_failures [OF i p, where e = example_env and oc = example_outcomes
      and st = initial_dashboard_state and rejected = "Error ''Request failed''"
      and bad = "[Null]" and thrown = TypeError and s = None and chart = "[]"
      and err = "Error ''Request failed''" and x = "Error ''Request failed''"
      and apps = "[example_record ''a1'' ''patient-1'' ''confirmed'']"
      and r = "\<lparr>patientAppointments = [example_record ''a1'' ''patient-1'' ''confirmed''],
                 upcomingCount = 1\<rparr>"]
  from t i p b c r show ?thesis
    by (simp add: initial_dashboard_state_def example_outcomes_def catch_with_def or_empty_def)
qed

subsection \<open>C7: errors of single fields\<close>

text \<open>
  C7. An empty date and an empty time give no error, an empty reason gives one; a reason
  that is not empty gives no error exactly when it has at least 10 characters after
  trimming.
\<close>

theorem field_error_asymmetry:
  "getFieldValidationError e ''appointmentDate'' '''' = '''' \<and>
   getFieldValidationError e ''appointmentTime'' '''' = '''' \<and>
   getFieldValidationError e ''reason'' '''' \<noteq> '''' \<and>
   (v \<noteq> '''' \<longrightarrow>
      (getFieldValidationError e ''reason'' v = '''' \<longleftrightarrow> 10 \<le> length (trim v)))"
  by (simp add: getFieldValidationError_def REASON_MIN_LENGTH_def)

theorem field_error_asymmetry_witness:
  "''long enough!!'' \<noteq> '''' \<and>
   getFieldValidationError example_env ''reason'' ''long enough!!'' = '''' \<and>
   ''short'' \<noteq> '''' \<and>
   getFieldValidationError example_env ''reason'' ''short'' \<noteq> ''''"
  using field_error_asymmetry [of example_env "''long enough!!''"]
        field_error_asymmetry [of example_env "''short''"]
  by (simp add: trim_def is_space_def)

subsection \<open>C8: business hours\<close>

lemma digit_char_props:
  assumes "d < 10"
  shows "is_digit (digit_char d)" "\<not> is_space (digit_char d)"
    "digit_char d \<noteq> CHR ''+''" "digit_char d \<noteq> CHR ''-''" "digit_char d \<noteq> CHR '':''"
    "int (of_char (digit_char d)) = 48 + int d"
proof -
  from assms have "d \<in> {0, 1, 2, 3, 4, 5, 6, 7, 8, 9}" by auto
  then show "is_digit (digit_char d)" "\<not> is_space (digit_char d)"
    "digit_char d \<noteq> CHR ''+''" "digit_char d \<noteq> CHR ''-''" "digit_char d \<noteq> CHR '':''"
    "int (of_char (digit_char d)) = 48 + int d"
    by (auto simp: digit_char_def is_digit_def is_space_def)
qed

lemma Number_str_two_digits:
  assumes "n < 100"
  shows "Number_str (two_digits n) = Some (int n)"
proof -
  have a: "n div 10 < 10" and b: "n mod 10 < 10" using assms by auto
  have "int (n div 10) * 10 + int (n mod 10) = int n"
    by (metis mult.commute of_nat_add of_nat_mult of_nat_numeral div_mult_mod_eq)
  then show ?thesis
    using digit_char_props [OF a] digit_char_props [OF b]
    by (simp add: Number_str_def two_digits_def trim_def unsigned_digits_def digits_value_def)
qed

lemma split_on_hhmm:
  assumes "h < 100" "m < 100"
  shows "split_on CHR '':'' (hhmm h m) = [two_digits h, two_digits m]"
proof -
  have "h div 10 < 10" "h mod 10 < 10" "m div 10 < 10" "m mod 10 < 10" using assms by auto
  then show ?thesis
    by (simp add: hhmm_def two_digits_def digit_char_props(5))
qed

lemma hhmm_not_empty:
  "hhmm h m \<noteq> []"
  by (simp add: hhmm_def two_digits_def)

lemma isBusinessHours_hhmm:
  assumes "h < 24" "m < 60"
  shows "isBusinessHours (hhmm h m) = (9 * 60 \<le> h * 60 + m \<and> h * 60 + m \<le> 17 * 60)"
proof -
  have "h < 100" "m < 100" using assms by auto
  then show ?thesis
    by (simp add: isBusinessHours_def split_on_hhmm Number_str_two_digits hhmm_not_empty
        BUSINESS_HOURS_start_def BUSINESS_HOURS_end_def) linarith
qed

lemma isBusinessHours_examples:
  "\<not> isBusinessHours ''08:59''" "isBusinessHours ''09:00''" "isBusinessHours ''17:00''"
  "\<not> isBusinessHours ''17:01''" "\<not> isBusinessHours ''''"
  by (simp_all add: isBusinessHours_def Number_str_def trim_def unsigned_digits_def
      digits_value_def is_digit_def is_space_def BUSINESS_HOURS_start_def BUSINESS_HOURS_end_def)

text \<open>
  C8. A time of day \<open>HH:MM\<close> is accepted exactly when its minute count lies between
  09:00 and 17:00, both included: \<open>08:59\<close> is refused, \<open>09:00\<close> and \<open>17:00\<close> are
  accepted, \<open>17:01\<close> is refused, and so is the empty string.
\<close>

theorem business_hours_inclusive:
  "(h < 24 \<and> m < 60 \<longrightarrow>
      isBusinessHours (hhmm h m) = (9 * 60 \<le> h * 60 + m \<and> h * 60 + m \<le> 17 * 60)) \<and>
   \<not> isBusinessHours ''08:59'' \<and> isBusinessHours ''09:00'' \<and> isBusinessHours ''17:00'' \<and>
   \<not> isBusinessHours ''17:01'' \<and> \<not> isBusinessHours ''''"
  using isBusinessHours_hhmm [of h m] isBusinessHours_examples by blast

theorem business_hours_inclusive_witness:
  "(17::nat) < 24 \<and> (0::nat) < 60 \<and> hhmm 17 0 = ''17:00'' \<and> isBusinessHours (hhmm 17 0) \<and>
   (17::nat) < 24 \<and> (1::nat) < 60 \<and> hhmm 17 1 = ''17:01'' \<and> \<not> isBusinessHours (hhmm 17 1)"
proof -
  have s: "hhmm 17 0 = ''17:00''" "hhmm 17 1 = ''17:01''"
    by (simp_all add: hhmm_def two_digits_def digit_char_def)
  have "(17::nat) < 24 \<and> (0::nat) < 60" "(17::nat) < 24 \<and> (1::nat) < 60"
    by simp_all
  with business_hours_inclusive [of 17 0] business_hours_inclusive [of 17 1]
  have "isBusinessHours (hhmm 17 0)" "\<not> isBusinessHours (hhmm 17 1)"
    by simp_all
  with s show ?thesis by simp
qed

subsection \<open>C10: a form without date and time\<close>

lemma validate_empty_date_time:
  assumes "doctor d \<noteq> ''''" "10 \<le> length (trim (reason d))"
    "appointmentDate d = ''''" "appointmentTime d = ''''"
  shows "validateBookingForm e d = initialErrors"
proof -
  from assms(2) have "reason d \<noteq> []" by (auto simp: trim_def)
  with assms show ?thesis
    by (simp add: validateBookingForm_def getFieldValidationError_def initialErrors_def
        REASON_MIN_LENGTH_def)
qed

text \<open>
  C10. For a form with a doctor, a reason of at least 10 trimmed characters, and the date
  and the time empty, the validation returns the all-empty error map; the form is valid,
  the submit button is enabled (no submission being in flight), and the submit handler
  passes its validation and hands the form data, date and time empty, to the create
  request.
\<close>

theorem empty_date_time_accepted:
  assumes "doctor (form st) \<noteq> ''''" "10 \<le> length (trim (reason (form st)))"
    "appointmentDate (form st) = ''''" "appointmentTime (form st) = ''''"
  shows "validateBookingForm e (form st) = initialErrors \<and>
         isFormValid e (form st) \<and>
         (\<not> submitting st \<longrightarrow> \<not> submit_disabled e st) \<and>
         handleSubmit e st =
           (st\<lparr>errors := initialErrors, submitting := True, submitError := ''''\<rparr>, Some (form st))"
  using validate_empty_date_time [OF assms, of e]
  by (simp add: isFormValid_def submit_disabled_def handleSubmit_def initialErrors_def)

theorem empty_date_time_accepted_witness:
  "doctor (form example_booking_state) \<noteq> '''' \<and>
   10 \<le> length (trim (reason (form example_booking_state))) \<and>
   appointmentDate (form example_booking_state) = '''' \<and>
   appointmentTime (form example_booking_state) = '''' \<and>
   \<not> submitting example_booking_state \<and>
   \<not> submit_disabled example_env example_booking_state \<and>
   snd (handleSubmit example_env example_booking_state) =
     Some \<lparr>doctor = ''d1'', appointmentDate = '''', appointmentTime = '''',
           reason = ''Checkup and tests'', symptoms = ''''\<rparr>"
proof -
  have h: "doctor (form example_booking_state) \<noteq> ''''"
    "10 \<le> length (trim (reason (form example_booking_state)))"
    "appointmentDate (form example_booking_state) = ''''"
    "appointmentTime (form example_booking_state) = ''''"
    by (simp_all add: example_booking_state_def trim_def is_space_def)
  have s: "\<not> submitting example_booking_state"
    by (simp add: example_booking_state_def initial_booking_state_def)
  from empty_date_time_accepted [OF h, of example_env] h s show ?thesis
    by (simp add: example_booking_state_def)
qed

end
